theory Spec2Isabelle
  imports Complex_Main
begin

section \<open>The uncertain-array dispatch engine of GTC\<close>

text \<open>
  This theory embeds \<^verbatim>\<open>GTC/uncertain_array.py\<close>: the class \<^verbatim>\<open>UncertainArray\<close>, a
  subclass of \<^verbatim>\<open>numpy.ndarray\<close> whose elements are Python numbers or uncertain numbers,
  and the two module functions \<^verbatim>\<open>_isnan\<close> and \<^verbatim>\<open>_isinf\<close>.

  Naming: a method \<^verbatim>\<open>UncertainArray._add\<close> is the constant \<open>ua_add\<close>, a public method
  \<^verbatim>\<open>UncertainArray.sum\<close> is \<open>ua_sum\<close>, \<^verbatim>\<open>__new__\<close> is \<open>ua_new\<close> and
  \<^verbatim>\<open>__array_ufunc__\<close> is \<open>ua_array_ufunc\<close>; the module functions \<^verbatim>\<open>_isnan\<close> and
  \<^verbatim>\<open>_isinf\<close> are \<open>number_isnan\<close> and \<open>number_isinf\<close>.
\<close>

subsection \<open>Python values\<close>

text \<open>Every \<^verbatim>\<open>raise\<close> of the source, and every exception of the Python and numpy
  primitives it calls, is a value of this type.\<close>

datatype error =
    TypeError
  | ValueError
  | AttributeError
  | IndexError
  | NotImplementedError
  | AssertionError
  | OverflowError
  | ZeroDivisionError
  | Unmodelled

text \<open>A Python \<^verbatim>\<open>float\<close> is a finite value, an infinity or a NaN. The class is what
  \<^verbatim>\<open>math.isnan\<close> and \<^verbatim>\<open>math.isinf\<close> read; a finite double is kept as the rational
  number it denotes.\<close>

datatype pyfloat = Finite rat | PosInf | NegInf | NaN

text \<open>The objects that an array cell, an operand or a label can hold. \<open>'u\<close> is the type
  of uncertain numbers (\<^verbatim>\<open>UncertainReal\<close>, \<^verbatim>\<open>UncertainComplex\<close>), which live in
  \<^verbatim>\<open>GTC.lib\<close>, outside this module.\<close>

datatype 'u pyobj =
    PyNone
  | PyBool bool
  | PyInt int
  | PyFloat pyfloat
  | PyComplex pyfloat pyfloat
  | PyStr string
  | Uncertain 'u

subsection \<open>Arrays\<close>

datatype dtype = DObject | DBool | DInt | DFloat | DComplex | DStr

text \<open>A \<^verbatim>\<open>numpy.ndarray\<close>: its shape, its element kind and its cells in flat (C) order.
  \<open>'c\<close> is the type of a cell: \<open>'u pyobj\<close> in general, \<open>bool\<close> for the buffers that the
  predicates allocate with \<^verbatim>\<open>dtype=bool\<close>.\<close>

record 'c ndarray =
  shape :: "nat list"
  dtype :: dtype
  data :: "'c list"

text \<open>An \<^verbatim>\<open>UncertainArray\<close> is an ndarray with two more attributes, \<^verbatim>\<open>_label\<close> and
  \<^verbatim>\<open>_broadcasted_shape\<close>; the latter is written by \<^verbatim>\<open>__array_ufunc__\<close> and read by
  \<^verbatim>\<open>_create_empty\<close>.\<close>

record 'c uarray = "'c ndarray" +
  label :: "string option"
  broadcasted_shape :: "nat list option"

definition well_formed :: "('c, 'z) ndarray_scheme \<Rightarrow> bool" where
  "well_formed a \<longleftrightarrow> length (data a) = prod_list (shape a)"

text \<open>\<^verbatim>\<open>np.asarray(self)\<close>: the same cells seen as a plain ndarray.\<close>

definition as_ndarray :: "('c, 'z) ndarray_scheme \<Rightarrow> 'c ndarray" where
  "as_ndarray a = \<lparr>shape = shape a, dtype = dtype a, data = data a\<rparr>"

text \<open>\<^verbatim>\<open>a.item(0)\<close>: the first cell in flat order; numpy raises IndexError on an array
  without cells.\<close>

definition item0 :: "('c, 'z) ndarray_scheme \<Rightarrow> error + 'c" where
  "item0 a = (case data a of [] \<Rightarrow> Inl IndexError | x # _ \<Rightarrow> Inr x)"

text \<open>\<^verbatim>\<open>np.empty(shape, dtype)\<close>: a fresh buffer of \<open>prod_list shape\<close> cells. numpy does
  not initialise it: \<open>init\<close> gives what cell \<open>i\<close> holds before it is written (for
  \<^verbatim>\<open>dtype=object\<close> numpy fills with \<^verbatim>\<open>None\<close>).\<close>

definition np_empty :: "nat list \<Rightarrow> dtype \<Rightarrow> (nat \<Rightarrow> 'c) \<Rightarrow> 'c ndarray" where
  "np_empty shp dt init = \<lparr>shape = shp, dtype = dt, data = map init [0..<prod_list shp]\<rparr>"

text \<open>\<^verbatim>\<open>a.itemset(i, v)\<close>: writes cell \<open>i\<close> in flat order; IndexError out of range.\<close>

definition itemset :: "'c ndarray \<Rightarrow> nat \<Rightarrow> 'c \<Rightarrow> error + 'c ndarray" where
  "itemset a i v = (if i < length (data a) then Inr (a\<lparr>data := (data a)[i := v]\<rparr>) else Inl IndexError)"

subsection \<open>What a call returns\<close>

text \<open>A method returns a bare Python object (for a predicate \<^verbatim>\<open>True\<close> or \<^verbatim>\<open>False\<close>), an
  \<^verbatim>\<open>UncertainArray\<close>, or a plain ndarray: of objects, or of booleans for the predicates.\<close>

datatype 'u pyresult =
    RScalar "'u pyobj"
  | RUncertainArray "'u pyobj uarray"
  | RNdarray "'u pyobj ndarray"
  | RNdarrayBool "bool ndarray"

text \<open>Sequencing of calls that may raise: the first exception ends the computation.\<close>

definition and_then :: "error + 'a \<Rightarrow> ('a \<Rightarrow> error + 'b) \<Rightarrow> error + 'b" where
  "and_then m f = (case m of Inl e \<Rightarrow> Inl e | Inr v \<Rightarrow> f v)"

subsection \<open>The collaborators\<close>

text \<open>The functions of \<^verbatim>\<open>GTC.core\<close> that the handlers call by name.\<close>

datatype core_function =
    Exp | Log | Log10 | Sqrt | Cos | Sin | Tan | Acos | Asin | Atan
  | Sinh | Cosh | Tanh | Acosh | Asinh | Atanh | Mag_squared | Magnitude | Phase

text \<open>What \<^verbatim>\<open>UncertainArray(array, ...)\<close> can be given: an object whose type is exactly
  \<^verbatim>\<open>numpy.ndarray\<close>, or anything else (a nested sequence, a number, an instance of an
  ndarray subclass), of some type \<open>'s\<close>.\<close>

datatype ('u, 's) array_like = PlainNdarray "'u pyobj ndarray" | Other 's

text \<open>
  The engine only dispatches: what an operation does to one element, or to a pair, is
  decided by the element (its operators and attributes), by \<^verbatim>\<open>GTC.core\<close>, and for
  conversions by numpy. None of that code is in this module, so it is a parameter of the
  embedding. Each field may raise.
  \<^item> \<open>core_value\<close> ... \<open>core_result\<close>: \<^verbatim>\<open>value\<close>, \<^verbatim>\<open>uncertainty\<close>, \<^verbatim>\<open>variance\<close>,
    \<^verbatim>\<open>dof\<close>, the one-argument functions and \<^verbatim>\<open>result(x)\<close>, \<^verbatim>\<open>result(x, label)\<close> of
    \<^verbatim>\<open>GTC.core\<close>;
  \<^item> \<open>attr_real\<close>, \<open>attr_imag\<close>, \<open>attr_r\<close>, \<open>meth_conjugate\<close>: \<^verbatim>\<open>x.real\<close>, \<^verbatim>\<open>x.imag\<close>,
    \<^verbatim>\<open>x.r\<close>, \<^verbatim>\<open>x.conjugate()\<close>;
  \<^item> \<open>op_pos\<close> ... \<open>op_ge\<close>: Python's \<^verbatim>\<open>+x\<close>, \<^verbatim>\<open>-x\<close>, \<^verbatim>\<open>abs(x)\<close>, \<^verbatim>\<open>x + y\<close>, \<^verbatim>\<open>x - y\<close>,
    \<^verbatim>\<open>x * y\<close>, \<^verbatim>\<open>x / y\<close> (true division: the module imports \<^verbatim>\<open>division\<close> from
    \<^verbatim>\<open>__future__\<close>), \<^verbatim>\<open>x ** y\<close> and the six comparisons;
  \<^item> \<open>truth\<close>: \<^verbatim>\<open>bool(x)\<close>, which is also how numpy stores an object into a boolean
    buffer;
  \<^item> \<open>uninit_bool\<close>, \<open>uninit\<close>: what a cell of a fresh \<^verbatim>\<open>np.empty\<close> buffer of a
    non-object kind holds; \<open>cast\<close>: how numpy stores an object into a buffer of a
    non-object kind;
  \<^item> \<open>np_convert\<close>: the shape and the cells that \<^verbatim>\<open>np.asarray(x, dtype=d)\<close> builds when it
    has to convert \<open>x\<close>.
\<close>

record ('u, 's) env =
  core_value :: "'u pyobj \<Rightarrow> error + 'u pyobj"
  core_uncertainty :: "'u pyobj \<Rightarrow> error + 'u pyobj"
  core_variance :: "'u pyobj \<Rightarrow> error + 'u pyobj"
  core_dof :: "'u pyobj \<Rightarrow> error + 'u pyobj"
  core_apply :: "core_function \<Rightarrow> 'u pyobj \<Rightarrow> error + 'u pyobj"
  core_result :: "'u pyobj \<Rightarrow> 'u pyobj option \<Rightarrow> error + 'u pyobj"
  attr_real :: "'u pyobj \<Rightarrow> error + 'u pyobj"
  attr_imag :: "'u pyobj \<Rightarrow> error + 'u pyobj"
  attr_r :: "'u pyobj \<Rightarrow> error + 'u pyobj"
  meth_conjugate :: "'u pyobj \<Rightarrow> error + 'u pyobj"
  op_pos :: "'u pyobj \<Rightarrow> error + 'u pyobj"
  op_neg :: "'u pyobj \<Rightarrow> error + 'u pyobj"
  op_abs :: "'u pyobj \<Rightarrow> error + 'u pyobj"
  op_add :: "'u pyobj \<Rightarrow> 'u pyobj \<Rightarrow> error + 'u pyobj"
  op_sub :: "'u pyobj \<Rightarrow> 'u pyobj \<Rightarrow> error + 'u pyobj"
  op_mul :: "'u pyobj \<Rightarrow> 'u pyobj \<Rightarrow> error + 'u pyobj"
  op_truediv :: "'u pyobj \<Rightarrow> 'u pyobj \<Rightarrow> error + 'u pyobj"
  op_pow :: "'u pyobj \<Rightarrow> 'u pyobj \<Rightarrow> error + 'u pyobj"
  op_eq :: "'u pyobj \<Rightarrow> 'u pyobj \<Rightarrow> error + 'u pyobj"
  op_ne :: "'u pyobj \<Rightarrow> 'u pyobj \<Rightarrow> error + 'u pyobj"
  op_lt :: "'u pyobj \<Rightarrow> 'u pyobj \<Rightarrow> error + 'u pyobj"
  op_le :: "'u pyobj \<Rightarrow> 'u pyobj \<Rightarrow> error + 'u pyobj"
  op_gt :: "'u pyobj \<Rightarrow> 'u pyobj \<Rightarrow> error + 'u pyobj"
  op_ge :: "'u pyobj \<Rightarrow> 'u pyobj \<Rightarrow> error + 'u pyobj"
  truth :: "'u pyobj \<Rightarrow> error + bool"
  uninit_bool :: "nat \<Rightarrow> bool"
  uninit :: "dtype \<Rightarrow> nat \<Rightarrow> 'u pyobj"
  cast :: "dtype \<Rightarrow> 'u pyobj \<Rightarrow> error + 'u pyobj"
  np_convert :: "('u, 's) array_like \<Rightarrow> dtype \<Rightarrow> error + (nat list \<times> 'u pyobj list)"

subsection \<open>The module functions \<^verbatim>\<open>_isnan\<close> and \<^verbatim>\<open>_isinf\<close>\<close>

text \<open>\<^verbatim>\<open>math.isnan\<close> and \<^verbatim>\<open>math.isinf\<close> convert an \<^verbatim>\<open>int\<close> to a double first, and raise
  OverflowError when it does not fit: the largest double is \<open>2 ^ 1024 - 2 ^ 971\<close>, and
  an integer rounds to it when its magnitude is below \<open>2 ^ 1024 - 2 ^ 970\<close>.\<close>

definition int_fits_float :: "int \<Rightarrow> bool" where
  "int_fits_float n \<longleftrightarrow> \<bar>n\<bar> < 2 ^ 1024 - 2 ^ 970"

text \<open>
  \<^verbatim>\<open>
  def _isnan(number):
      val = value(number)
      if isinstance(val, Real):
          return isnan(val)
      elif isinstance(val, Complex):
          return cisnan(val)
      else:
          raise TypeError('cannot calculate isnan of type {}'.format(type(number)))
  \<close>
  \<^verbatim>\<open>bool\<close>, \<^verbatim>\<open>int\<close> and \<^verbatim>\<open>float\<close> are \<^verbatim>\<open>Real\<close>; \<^verbatim>\<open>complex\<close> is \<^verbatim>\<open>Complex\<close>.
\<close>

definition number_isnan :: "('u, 's) env \<Rightarrow> 'u pyobj \<Rightarrow> error + bool" where
  "number_isnan env number =
     and_then (core_value env number) (\<lambda>val.
       case val of
         PyBool b \<Rightarrow> Inr False
       | PyInt n \<Rightarrow> (if int_fits_float n then Inr False else Inl OverflowError)
       | PyFloat f \<Rightarrow> Inr (f = NaN)
       | PyComplex re im \<Rightarrow> Inr (re = NaN \<or> im = NaN)
       | _ \<Rightarrow> Inl TypeError)"

definition float_isinf :: "pyfloat \<Rightarrow> bool" where
  "float_isinf f \<longleftrightarrow> f = PosInf \<or> f = NegInf"

definition number_isinf :: "('u, 's) env \<Rightarrow> 'u pyobj \<Rightarrow> error + bool" where
  "number_isinf env number =
     and_then (core_value env number) (\<lambda>val.
       case val of
         PyBool b \<Rightarrow> Inr False
       | PyInt n \<Rightarrow> (if int_fits_float n then Inr False else Inl OverflowError)
       | PyFloat f \<Rightarrow> Inr (float_isinf f)
       | PyComplex re im \<Rightarrow> Inr (float_isinf re \<or> float_isinf im)
       | _ \<Rightarrow> Inl TypeError)"

subsection \<open>Construction\<close>

text \<open>\<^verbatim>\<open>np.asarray(array, dtype=d)\<close>: an ndarray whose kind is already \<open>d\<close> is returned as
  it is; anything else is converted, and the array built has kind \<open>d\<close>.\<close>

definition np_asarray :: "('u, 's) env \<Rightarrow> ('u, 's) array_like \<Rightarrow> dtype \<Rightarrow> error + 'u pyobj ndarray" where
  "np_asarray env array d =
     (let converted = and_then (np_convert env array d)
            (\<lambda>(shp, cells). Inr \<lparr>shape = shp, dtype = d, data = cells\<rparr>)
      in case array of
           PlainNdarray a \<Rightarrow> (if dtype a = d then Inr a else converted)
         | Other s \<Rightarrow> converted)"

text \<open>
  \<^verbatim>\<open>obj.view(cls)\<close> runs \<^verbatim>\<open>__array_finalize__\<close>:
  \<^verbatim>\<open>
  def __array_finalize__(self, obj):
      if obj is None: return
      self._label = getattr(obj, 'label', None)
      self.__class__.__name__ = 'uarray'
      self._broadcasted_shape = None
  \<close>
  \<open>obj\<close> is the plain ndarray being viewed, which has no \<^verbatim>\<open>label\<close>.
\<close>

definition view_UncertainArray :: "'c ndarray \<Rightarrow> 'c uarray" where
  "view_UncertainArray obj =
     \<lparr>shape = shape obj, dtype = dtype obj, data = data obj, label = None, broadcasted_shape = None\<rparr>"

text \<open>
  \<^verbatim>\<open>
  def __new__(cls, array, dtype=None, label=None):
      if type(array) == np.ndarray:
          dtype = array.dtype
      elif dtype is None:
          dtype = np.dtype('O')
      obj = np.asarray(array, dtype=dtype).view(cls)
      obj._label = label
      return obj
  \<close>
\<close>

definition ua_new ::
  "('u, 's) env \<Rightarrow> ('u, 's) array_like \<Rightarrow> dtype option \<Rightarrow> string option \<Rightarrow> error + 'u pyobj uarray" where
  "ua_new env array dtype_hint lbl =
     (let dt = (case array of
                  PlainNdarray a \<Rightarrow> dtype a
                | Other s \<Rightarrow> (case dtype_hint of None \<Rightarrow> DObject | Some d \<Rightarrow> d))
      in and_then (np_asarray env array dt)
           (\<lambda>obj. Inr ((view_UncertainArray obj)\<lparr>label := lbl\<rparr>)))"

text \<open>The handlers end with \<^verbatim>\<open>UncertainArray(arr)\<close> or \<^verbatim>\<open>UncertainArray(arr, label=...)\<close>
  on a buffer \<open>arr\<close> they allocated themselves, a plain ndarray: \<^verbatim>\<open>__new__\<close> takes its
  first branch and nothing is converted (lemma \<open>ua_new_PlainNdarray\<close> below).\<close>

definition UncertainArray :: "'c ndarray \<Rightarrow> string option \<Rightarrow> 'c uarray" where
  "UncertainArray arr lbl = (view_UncertainArray arr)\<lparr>label := lbl\<rparr>"

subsection \<open>Result materialization\<close>

text \<open>What a handler receives as \<^verbatim>\<open>*inputs\<close>: the ndarrays of the call, or, after
  broadcasting, the tuple \<^verbatim>\<open>broadcasted.iters\<close> of flat iterators (each given by the
  elements it yields), or the single input of a one-input call that is not an ndarray.\<close>

datatype 'e hinputs = Arrays "'e ndarray list" | Iters "'e list list" | NotArray

text \<open>\<^verbatim>\<open>inputs[k].item(0)\<close>: a tuple index out of range raises IndexError; a flat
  iterator and a plain Python object have no method \<^verbatim>\<open>item\<close>.\<close>

definition input_item0 :: "'e hinputs \<Rightarrow> nat \<Rightarrow> error + 'e" where
  "input_item0 inputs k =
     (case inputs of
        Arrays as \<Rightarrow> (if k < length as then item0 (as ! k) else Inl IndexError)
      | Iters its \<Rightarrow> (if k < length its then Inl AttributeError else Inl IndexError)
      | NotArray \<Rightarrow> (if k < 1 then Inl AttributeError else Inl IndexError))"

text \<open>What the iterator returned by \<^verbatim>\<open>_create_empty\<close> yields: the elements of one flat
  stream, or the tuples of a zip.\<close>

datatype 'e item = Single 'e | Tuple "'e list"

text \<open>\<^verbatim>\<open>izip(*inputs)\<close>: the tuples of the \<open>i\<close>-th elements, as long as every stream has
  one.\<close>

definition izip :: "'e list list \<Rightarrow> 'e list list" where
  "izip its =
     (case its of
        [] \<Rightarrow> []
      | s # ss \<Rightarrow> map (\<lambda>i. map (\<lambda>t. t ! i) its) [0..<fold min (map length ss) (length s)])"

text \<open>
  \<^verbatim>\<open>
  def _create_empty(self, inputs=None, dtype=None, order='C'):
      if dtype is None:
          dtype = object
      shape = self.shape if self._broadcasted_shape is None else self._broadcasted_shape
      a = np.empty(shape, dtype=dtype, order=order)
      if inputs is None:
          return a, a.itemset, self.flat
      if len(inputs) == 1:
          return a, a.itemset, inputs[0].flat
      if isinstance(inputs[0], np.ndarray):
          return a, a.itemset, izip(inputs[0].flat, inputs[1].flat)
      # then the inputs are already broadcasted iterators
      return a, a.itemset, izip(*inputs)
  \<close>
  The buffer's cell type follows the kind asked for, so the caller passes \<open>init\<close>, the
  content of the fresh buffer, with it. The flat order is C order whatever \<^verbatim>\<open>order\<close> is.
\<close>

definition ua_create_empty ::
  "('e, 'z) uarray_scheme \<Rightarrow> 'e hinputs option \<Rightarrow> dtype option \<Rightarrow> (nat \<Rightarrow> 'c)
     \<Rightarrow> error + ('c ndarray \<times> 'e item list)" where
  "ua_create_empty self inputs dtype_arg init =
     (let dt = (case dtype_arg of None \<Rightarrow> DObject | Some d \<Rightarrow> d);
          shp = (case broadcasted_shape self of None \<Rightarrow> shape self | Some s \<Rightarrow> s);
          a = np_empty shp dt init
      in case inputs of
           None \<Rightarrow> Inr (a, map Single (data self))
         | Some NotArray \<Rightarrow> Inl AttributeError
         | Some (Arrays as) \<Rightarrow>
             (if length as = 1 then Inr (a, map Single (data (as ! 0)))
              else if length as = 0 then Inl IndexError
              else Inr (a, map (\<lambda>(x, y). Tuple [x, y]) (zip (data (as ! 0)) (data (as ! 1)))))
         | Some (Iters its) \<Rightarrow>
             (if length its = 1 then Inl AttributeError
              else if length its = 0 then Inl IndexError
              else Inr (a, map Tuple (izip its))))"

text \<open>\<^verbatim>\<open>for i, item in enumerate(iterator): itemset(i, f(item))\<close>, from index \<open>i\<close> on.\<close>

fun enumerate_itemset :: "('x \<Rightarrow> error + 'c) \<Rightarrow> nat \<Rightarrow> 'x list \<Rightarrow> 'c ndarray \<Rightarrow> error + 'c ndarray" where
  "enumerate_itemset f i [] arr = Inr arr"
| "enumerate_itemset f i (x # xs) arr =
     and_then (f x) (\<lambda>v. and_then (itemset arr i v) (enumerate_itemset f (Suc i) xs))"

text \<open>The loop target \<^verbatim>\<open>item\<close> takes whatever the iterator yields. A handler that applies
  a scalar operation to it is modelled on the elements of a flat stream; the tuple of a
  zip is not an operand of any of them.\<close>

definition on_item :: "('e \<Rightarrow> error + 'c) \<Rightarrow> 'e item \<Rightarrow> error + 'c" where
  "on_item f it = (case it of Single x \<Rightarrow> f x | Tuple t \<Rightarrow> Inl TypeError)"

text \<open>The loop target \<^verbatim>\<open>(a, b)\<close> unpacks a tuple of two: an element that is not a tuple
  cannot be unpacked (TypeError), a tuple of another length has too few or too many
  values (ValueError).\<close>

definition on_pair :: "('e \<Rightarrow> 'e \<Rightarrow> error + 'c) \<Rightarrow> 'e item \<Rightarrow> error + 'c" where
  "on_pair f it =
     (case it of
        Single x \<Rightarrow> Inl TypeError
      | Tuple t \<Rightarrow> (case t of [a, b] \<Rightarrow> f a b | _ \<Rightarrow> Inl ValueError))"

subsection \<open>Handlers\<close>

text \<open>Most handlers are one of a few shapes of code, written once here with the scalar
  operation \<open>f\<close> as argument. The first is the shape of \<^verbatim>\<open>_negative\<close>, of the accessors
  and of the functions of \<^verbatim>\<open>GTC.core\<close>, which take no operand but \<^verbatim>\<open>self\<close>:
  \<^verbatim>\<open>
  if self.shape == ():
      return f(self.item(0))
  arr, itemset, iterator = self._create_empty(dtype=dtype)
  for i, item in enumerate(iterator):
      itemset(i, f(item))
  return UncertainArray(arr)
  \<close>
  With \<^verbatim>\<open>dtype=None\<close> the buffer holds objects: a fresh cell is \<^verbatim>\<open>None\<close> and a value is
  stored as it is.\<close>

definition fresh_cell :: "('u, 's) env \<Rightarrow> dtype option \<Rightarrow> nat \<Rightarrow> 'u pyobj" where
  "fresh_cell env dtype_arg i =
     (case dtype_arg of
        None \<Rightarrow> PyNone
      | Some d \<Rightarrow> (if d = DObject then PyNone else uninit env d i))"

definition stored :: "('u, 's) env \<Rightarrow> dtype option \<Rightarrow> 'u pyobj \<Rightarrow> error + 'u pyobj" where
  "stored env dtype_arg v =
     (case dtype_arg of
        None \<Rightarrow> Inr v
      | Some d \<Rightarrow> (if d = DObject then Inr v else cast env d v))"

definition of_self ::
  "('u, 's) env \<Rightarrow> dtype option \<Rightarrow> ('u pyobj \<Rightarrow> error + 'u pyobj) \<Rightarrow> 'u pyobj uarray \<Rightarrow> error + 'u pyresult" where
  "of_self env dtype_arg f self =
     (if shape self = [] then
        and_then (item0 self) (\<lambda>x. and_then (f x) (\<lambda>v. Inr (RScalar v)))
      else
        and_then (ua_create_empty self None dtype_arg (fresh_cell env dtype_arg)) (\<lambda>(arr, iterator).
        and_then (enumerate_itemset (on_item (\<lambda>x. and_then (f x) (stored env dtype_arg))) 0 iterator arr) (\<lambda>arr.
        Inr (RUncertainArray (UncertainArray arr None)))))"

text \<open>The shape of \<^verbatim>\<open>_reciprocal\<close> and \<^verbatim>\<open>_absolute\<close>, which iterate over \<^verbatim>\<open>inputs\<close>:
  \<^verbatim>\<open>
  if self.ndim == 0:
      return f(self.item(0))
  arr, itemset, iterator = self._create_empty(inputs)
  for i, item in enumerate(iterator):
      itemset(i, f(item))
  return UncertainArray(arr)
  \<close>\<close>

definition of_inputs ::
  "('u pyobj \<Rightarrow> error + 'u pyobj) \<Rightarrow> 'u pyobj uarray \<Rightarrow> 'u pyobj hinputs \<Rightarrow> error + 'u pyresult" where
  "of_inputs f self inputs =
     (if shape self = [] then
        and_then (item0 self) (\<lambda>x. and_then (f x) (\<lambda>v. Inr (RScalar v)))
      else
        and_then (ua_create_empty self (Some inputs) None (\<lambda>i. PyNone)) (\<lambda>(arr, iterator).
        and_then (enumerate_itemset (on_item f) 0 iterator arr) (\<lambda>arr.
        Inr (RUncertainArray (UncertainArray arr None)))))"

text \<open>The shape of \<^verbatim>\<open>_add\<close> and the other handlers of two operands; \<open>f0\<close> is the
  expression of the 0-dimensional branch and \<open>f\<close> the body of the loop (the same
  operation, except in \<^verbatim>\<open>_maximum\<close> and \<^verbatim>\<open>_minimum\<close>):
  \<^verbatim>\<open>
  if self.ndim == 0:
      return f0(inputs[0].item(0), inputs[1].item(0))
  arr, itemset, iterator = self._create_empty(inputs)
  for i, (a, b) in enumerate(iterator):
      itemset(i, f(a, b))
  return UncertainArray(arr)
  \<close>\<close>

definition of_pairs ::
  "('u pyobj \<Rightarrow> 'u pyobj \<Rightarrow> error + 'u pyobj) \<Rightarrow> ('u pyobj \<Rightarrow> 'u pyobj \<Rightarrow> error + 'u pyobj)
     \<Rightarrow> 'u pyobj uarray \<Rightarrow> 'u pyobj hinputs \<Rightarrow> error + 'u pyresult" where
  "of_pairs f0 f self inputs =
     (if shape self = [] then
        and_then (input_item0 inputs 0) (\<lambda>a. and_then (input_item0 inputs 1) (\<lambda>b.
        and_then (f0 a b) (\<lambda>v. Inr (RScalar v))))
      else
        and_then (ua_create_empty self (Some inputs) None (\<lambda>i. PyNone)) (\<lambda>(arr, iterator).
        and_then (enumerate_itemset (on_pair f) 0 iterator arr) (\<lambda>arr.
        Inr (RUncertainArray (UncertainArray arr None)))))"

text \<open>The shape of \<^verbatim>\<open>_equal\<close> and the other comparisons: the buffer is boolean, a value
  is stored by its truth, and the buffer itself is returned:
  \<^verbatim>\<open>
  if self.ndim == 0:
      return inputs[0].item(0) == inputs[1].item(0)
  arr, itemset, iterator = self._create_empty(inputs, dtype=bool)
  for i, (a, b) in enumerate(iterator):
      itemset(i, a == b)
  return arr
  \<close>\<close>

definition comparison ::
  "('u, 's) env \<Rightarrow> ('u pyobj \<Rightarrow> 'u pyobj \<Rightarrow> error + 'u pyobj)
     \<Rightarrow> 'u pyobj uarray \<Rightarrow> 'u pyobj hinputs \<Rightarrow> error + 'u pyresult" where
  "comparison env f self inputs =
     (if shape self = [] then
        and_then (input_item0 inputs 0) (\<lambda>a. and_then (input_item0 inputs 1) (\<lambda>b.
        and_then (f a b) (\<lambda>v. Inr (RScalar v))))
      else
        and_then (ua_create_empty self (Some inputs) (Some DBool) (uninit_bool env)) (\<lambda>(arr, iterator).
        and_then (enumerate_itemset (on_pair (\<lambda>a b. and_then (f a b) (truth env))) 0 iterator arr) (\<lambda>arr.
        Inr (RNdarrayBool arr))))"

text \<open>The shape of \<^verbatim>\<open>_isinf\<close>, \<^verbatim>\<open>_isnan\<close> and \<^verbatim>\<open>_isfinite\<close>; \<open>p0\<close> is the test of the
  0-dimensional branch and \<open>p\<close> the test in the loop:
  \<^verbatim>\<open>
  if self.ndim == 0:
      return p0(self.item(0))
  arr, itemset, iterator = self._create_empty(inputs, dtype=bool)
  for i, item in enumerate(iterator):
      itemset(i, p(item))
  return arr
  \<close>\<close>

definition predicate ::
  "('u, 's) env \<Rightarrow> ('u pyobj \<Rightarrow> error + bool) \<Rightarrow> ('u pyobj \<Rightarrow> error + bool)
     \<Rightarrow> 'u pyobj uarray \<Rightarrow> 'u pyobj hinputs \<Rightarrow> error + 'u pyresult" where
  "predicate env p0 p self inputs =
     (if shape self = [] then
        and_then (item0 self) (\<lambda>x. and_then (p0 x) (\<lambda>b. Inr (RScalar (PyBool b))))
      else
        and_then (ua_create_empty self (Some inputs) (Some DBool) (uninit_bool env)) (\<lambda>(arr, iterator).
        and_then (enumerate_itemset (on_item p) 0 iterator arr) (\<lambda>arr.
        Inr (RNdarrayBool arr))))"

paragraph \<open>Accessors\<close>

definition ua_real :: "('u, 's) env \<Rightarrow> 'u pyobj uarray \<Rightarrow> error + 'u pyresult" where
  "ua_real env self = of_self env None (attr_real env) self"

definition ua_imag :: "('u, 's) env \<Rightarrow> 'u pyobj uarray \<Rightarrow> error + 'u pyresult" where
  "ua_imag env self = of_self env None (attr_imag env) self"

text \<open>\<^verbatim>\<open>r\<close> allocates with \<^verbatim>\<open>dtype=float\<close>.\<close>

definition ua_r :: "('u, 's) env \<Rightarrow> 'u pyobj uarray \<Rightarrow> error + 'u pyresult" where
  "ua_r env self = of_self env (Some DFloat) (attr_r env) self"

definition ua_value :: "('u, 's) env \<Rightarrow> 'u pyobj uarray \<Rightarrow> dtype option \<Rightarrow> error + 'u pyresult" where
  "ua_value env self dtype_arg = of_self env dtype_arg (core_value env) self"

definition ua_uncertainty :: "('u, 's) env \<Rightarrow> 'u pyobj uarray \<Rightarrow> dtype option \<Rightarrow> error + 'u pyresult" where
  "ua_uncertainty env self dtype_arg = of_self env dtype_arg (core_uncertainty env) self"

definition ua_variance :: "('u, 's) env \<Rightarrow> 'u pyobj uarray \<Rightarrow> dtype option \<Rightarrow> error + 'u pyresult" where
  "ua_variance env self dtype_arg = of_self env dtype_arg (core_variance env) self"

definition ua_dof :: "('u, 's) env \<Rightarrow> 'u pyobj uarray \<Rightarrow> dtype option \<Rightarrow> error + 'u pyresult" where
  "ua_dof env self dtype_arg = of_self env dtype_arg (core_dof env) self"

paragraph \<open>Unary handlers\<close>

definition ua_conjugate :: "('u, 's) env \<Rightarrow> 'u pyobj uarray \<Rightarrow> 'u pyobj hinputs \<Rightarrow> error + 'u pyresult" where
  "ua_conjugate env self ignore = of_self env None (meth_conjugate env) self"

definition ua_positive :: "('u, 's) env \<Rightarrow> 'u pyobj uarray \<Rightarrow> 'u pyobj hinputs \<Rightarrow> error + 'u pyresult" where
  "ua_positive env self ignore = of_self env None (op_pos env) self"

definition ua_negative :: "('u, 's) env \<Rightarrow> 'u pyobj uarray \<Rightarrow> 'u pyobj hinputs \<Rightarrow> error + 'u pyresult" where
  "ua_negative env self ignore = of_self env None (op_neg env) self"

text \<open>\<^verbatim>\<open>_exp\<close>, \<^verbatim>\<open>_log\<close>, \<^verbatim>\<open>_log10\<close>, \<^verbatim>\<open>_sqrt\<close>, \<^verbatim>\<open>_cos\<close>, \<^verbatim>\<open>_sin\<close>, \<^verbatim>\<open>_tan\<close>, \<^verbatim>\<open>_sinh\<close>,
  \<^verbatim>\<open>_cosh\<close>, \<^verbatim>\<open>_tanh\<close>, and behind \<^verbatim>\<open>_arccos\<close>, \<^verbatim>\<open>_arcsin\<close>, \<^verbatim>\<open>_arctan\<close>,
  \<^verbatim>\<open>_arccosh\<close>, \<^verbatim>\<open>_arcsinh\<close>, \<^verbatim>\<open>_arctanh\<close> and \<^verbatim>\<open>_square\<close> the methods \<^verbatim>\<open>_acos\<close>,
  \<^verbatim>\<open>_asin\<close>, \<^verbatim>\<open>_atan\<close>, \<^verbatim>\<open>_acosh\<close>, \<^verbatim>\<open>_asinh\<close>, \<^verbatim>\<open>_atanh\<close> and \<^verbatim>\<open>_mag_squared\<close>: each
  applies the function of \<^verbatim>\<open>GTC.core\<close> of its name.\<close>

definition ua_core :: "('u, 's) env \<Rightarrow> core_function \<Rightarrow> 'u pyobj uarray \<Rightarrow> 'u pyobj hinputs \<Rightarrow> error + 'u pyresult" where
  "ua_core env fn self ignore = of_self env None (core_apply env fn) self"

definition ua_exp :: "('u, 's) env \<Rightarrow> 'u pyobj uarray \<Rightarrow> 'u pyobj hinputs \<Rightarrow> error + 'u pyresult" where
  "ua_exp env self ignore = ua_core env Exp self ignore"

text \<open>\<^verbatim>\<open>_reciprocal\<close> computes \<^verbatim>\<open>1.0 / item\<close>, \<^verbatim>\<open>_absolute\<close> computes \<^verbatim>\<open>abs(item)\<close>.\<close>

definition ua_reciprocal :: "('u, 's) env \<Rightarrow> 'u pyobj uarray \<Rightarrow> 'u pyobj hinputs \<Rightarrow> error + 'u pyresult" where
  "ua_reciprocal env self inputs = of_inputs (op_truediv env (PyFloat (Finite 1))) self inputs"

definition ua_absolute :: "('u, 's) env \<Rightarrow> 'u pyobj uarray \<Rightarrow> 'u pyobj hinputs \<Rightarrow> error + 'u pyresult" where
  "ua_absolute env self inputs = of_inputs (op_abs env) self inputs"

paragraph \<open>Arithmetic on two operands\<close>

text \<open>\<^verbatim>\<open>_add\<close>, \<^verbatim>\<open>_subtract\<close>, \<^verbatim>\<open>_multiply\<close>, \<^verbatim>\<open>_divide\<close>, \<^verbatim>\<open>_true_divide\<close> and
  \<^verbatim>\<open>_power\<close> compute \<^verbatim>\<open>a + b\<close>, \<^verbatim>\<open>a - b\<close>, \<^verbatim>\<open>a * b\<close>, \<^verbatim>\<open>a / b\<close>, \<^verbatim>\<open>a / b\<close> and
  \<^verbatim>\<open>a ** b\<close>.\<close>

definition ua_add :: "('u, 's) env \<Rightarrow> 'u pyobj uarray \<Rightarrow> 'u pyobj hinputs \<Rightarrow> error + 'u pyresult" where
  "ua_add env self inputs = of_pairs (op_add env) (op_add env) self inputs"

definition ua_subtract :: "('u, 's) env \<Rightarrow> 'u pyobj uarray \<Rightarrow> 'u pyobj hinputs \<Rightarrow> error + 'u pyresult" where
  "ua_subtract env self inputs = of_pairs (op_sub env) (op_sub env) self inputs"

definition ua_multiply :: "('u, 's) env \<Rightarrow> 'u pyobj uarray \<Rightarrow> 'u pyobj hinputs \<Rightarrow> error + 'u pyresult" where
  "ua_multiply env self inputs = of_pairs (op_mul env) (op_mul env) self inputs"

definition ua_divide :: "('u, 's) env \<Rightarrow> 'u pyobj uarray \<Rightarrow> 'u pyobj hinputs \<Rightarrow> error + 'u pyresult" where
  "ua_divide env self inputs = of_pairs (op_truediv env) (op_truediv env) self inputs"

definition ua_true_divide :: "('u, 's) env \<Rightarrow> 'u pyobj uarray \<Rightarrow> 'u pyobj hinputs \<Rightarrow> error + 'u pyresult" where
  "ua_true_divide env self inputs = of_pairs (op_truediv env) (op_truediv env) self inputs"

definition ua_power :: "('u, 's) env \<Rightarrow> 'u pyobj uarray \<Rightarrow> 'u pyobj hinputs \<Rightarrow> error + 'u pyresult" where
  "ua_power env self inputs = of_pairs (op_pow env) (op_pow env) self inputs"

paragraph \<open>Comparisons\<close>

definition ua_equal :: "('u, 's) env \<Rightarrow> 'u pyobj uarray \<Rightarrow> 'u pyobj hinputs \<Rightarrow> error + 'u pyresult" where
  "ua_equal env self inputs = comparison env (op_eq env) self inputs"

definition ua_not_equal :: "('u, 's) env \<Rightarrow> 'u pyobj uarray \<Rightarrow> 'u pyobj hinputs \<Rightarrow> error + 'u pyresult" where
  "ua_not_equal env self inputs = comparison env (op_ne env) self inputs"

definition ua_less :: "('u, 's) env \<Rightarrow> 'u pyobj uarray \<Rightarrow> 'u pyobj hinputs \<Rightarrow> error + 'u pyresult" where
  "ua_less env self inputs = comparison env (op_lt env) self inputs"

definition ua_less_equal :: "('u, 's) env \<Rightarrow> 'u pyobj uarray \<Rightarrow> 'u pyobj hinputs \<Rightarrow> error + 'u pyresult" where
  "ua_less_equal env self inputs = comparison env (op_le env) self inputs"

definition ua_greater :: "('u, 's) env \<Rightarrow> 'u pyobj uarray \<Rightarrow> 'u pyobj hinputs \<Rightarrow> error + 'u pyresult" where
  "ua_greater env self inputs = comparison env (op_gt env) self inputs"

definition ua_greater_equal :: "('u, 's) env \<Rightarrow> 'u pyobj uarray \<Rightarrow> 'u pyobj hinputs \<Rightarrow> error + 'u pyresult" where
  "ua_greater_equal env self inputs = comparison env (op_ge env) self inputs"

paragraph \<open>Maximum and minimum\<close>

text \<open>
  \<^verbatim>\<open>
  def _maximum(self, *inputs):
      if self.ndim == 0:
          a = inputs[0].item(0)
          b = inputs[1].item(0)
          return a if a > b else b
      arr, itemset, iterator = self._create_empty(inputs)
      for i, (a, b) in enumerate(iterator):
          if _isnan(a):
              itemset(i, a)
          elif _isnan(b):
              itemset(i, b)
          elif a > b:
              itemset(i, a)
          else:
              itemset(i, b)
      return UncertainArray(arr)
  \<close>
  \<^verbatim>\<open>_minimum\<close> is the same with \<^verbatim>\<open><\<close>. \<open>pick\<close> is \<^verbatim>\<open>a if a > b else b\<close>: the
  condition of an \<^verbatim>\<open>if\<close> is read by its truth.
\<close>

definition pick ::
  "('u, 's) env \<Rightarrow> ('u pyobj \<Rightarrow> 'u pyobj \<Rightarrow> error + 'u pyobj) \<Rightarrow> 'u pyobj \<Rightarrow> 'u pyobj \<Rightarrow> error + 'u pyobj" where
  "pick env rel a b =
     and_then (rel a b) (\<lambda>c. and_then (truth env c) (\<lambda>t. Inr (if t then a else b)))"

definition pick_nan ::
  "('u, 's) env \<Rightarrow> ('u pyobj \<Rightarrow> 'u pyobj \<Rightarrow> error + 'u pyobj) \<Rightarrow> 'u pyobj \<Rightarrow> 'u pyobj \<Rightarrow> error + 'u pyobj" where
  "pick_nan env rel a b =
     and_then (number_isnan env a) (\<lambda>nan_a.
       if nan_a then Inr a
       else and_then (number_isnan env b) (\<lambda>nan_b.
         if nan_b then Inr b
         else pick env rel a b))"

definition ua_maximum :: "('u, 's) env \<Rightarrow> 'u pyobj uarray \<Rightarrow> 'u pyobj hinputs \<Rightarrow> error + 'u pyresult" where
  "ua_maximum env self inputs = of_pairs (pick env (op_gt env)) (pick_nan env (op_gt env)) self inputs"

definition ua_minimum :: "('u, 's) env \<Rightarrow> 'u pyobj uarray \<Rightarrow> 'u pyobj hinputs \<Rightarrow> error + 'u pyresult" where
  "ua_minimum env self inputs = of_pairs (pick env (op_lt env)) (pick_nan env (op_lt env)) self inputs"

paragraph \<open>Logical operations\<close>

text \<open>
  \<^verbatim>\<open>
  def _logical_and(self, *inputs):
      if self.ndim == 0:
          return inputs[0].item(0) and inputs[1].item(0)
      arr, itemset, iterator = self._create_empty(inputs, dtype=object)
      for i, (a, b) in enumerate(iterator):
          itemset(i, a and b)
      return UncertainArray(arr)
  \<close>
  \<^verbatim>\<open>a and b\<close> is \<open>a\<close> when \<open>a\<close> is false and \<open>b\<close> otherwise; \<^verbatim>\<open>a or b\<close> is \<open>a\<close> when \<open>a\<close>
  is true and \<open>b\<close> otherwise. \<^verbatim>\<open>dtype=object\<close> is the kind \<^verbatim>\<open>_create_empty\<close> takes by
  default.
\<close>

definition py_and :: "('u, 's) env \<Rightarrow> 'u pyobj \<Rightarrow> 'u pyobj \<Rightarrow> error + 'u pyobj" where
  "py_and env a b = and_then (truth env a) (\<lambda>t. Inr (if t then b else a))"

definition py_or :: "('u, 's) env \<Rightarrow> 'u pyobj \<Rightarrow> 'u pyobj \<Rightarrow> error + 'u pyobj" where
  "py_or env a b = and_then (truth env a) (\<lambda>t. Inr (if t then a else b))"

definition ua_logical_and :: "('u, 's) env \<Rightarrow> 'u pyobj uarray \<Rightarrow> 'u pyobj hinputs \<Rightarrow> error + 'u pyresult" where
  "ua_logical_and env self inputs = of_pairs (py_and env) (py_and env) self inputs"

definition ua_logical_or :: "('u, 's) env \<Rightarrow> 'u pyobj uarray \<Rightarrow> 'u pyobj hinputs \<Rightarrow> error + 'u pyresult" where
  "ua_logical_or env self inputs = of_pairs (py_or env) (py_or env) self inputs"

text \<open>
  \<^verbatim>\<open>
  def _logical_xor(self, *inputs):
      raise TypeError("Boolean bitwise operations are not defined for `UncertainArray`")
  \<close>
\<close>

definition ua_logical_xor :: "('u, 's) env \<Rightarrow> 'u pyobj uarray \<Rightarrow> 'u pyobj hinputs \<Rightarrow> error + 'u pyresult" where
  "ua_logical_xor env self inputs = Inl TypeError"

text \<open>
  \<^verbatim>\<open>
  def _logical_not(self, *inputs):
      arr, itemset, iterator = self._create_empty(inputs, dtype=bool)
      for i, item in enumerate(iterator):
          itemset(i, not bool(item))
      return arr
  \<close>
  \<open>not_bool\<close> is \<^verbatim>\<open>not bool(item)\<close>; a tuple is true unless it is empty.
\<close>

definition not_bool :: "('u, 's) env \<Rightarrow> 'u pyobj item \<Rightarrow> error + bool" where
  "not_bool env it =
     (case it of
        Single x \<Rightarrow> and_then (truth env x) (\<lambda>t. Inr (\<not> t))
      | Tuple t \<Rightarrow> Inr (t = []))"

definition ua_logical_not :: "('u, 's) env \<Rightarrow> 'u pyobj uarray \<Rightarrow> 'u pyobj hinputs \<Rightarrow> error + 'u pyresult" where
  "ua_logical_not env self inputs =
     and_then (ua_create_empty self (Some inputs) (Some DBool) (uninit_bool env)) (\<lambda>(arr, iterator).
     and_then (enumerate_itemset (not_bool env) 0 iterator arr) (\<lambda>arr.
     Inr (RNdarrayBool arr)))"

paragraph \<open>Tests of the value\<close>

definition ua_isinf :: "('u, 's) env \<Rightarrow> 'u pyobj uarray \<Rightarrow> 'u pyobj hinputs \<Rightarrow> error + 'u pyresult" where
  "ua_isinf env self inputs = predicate env (number_isinf env) (number_isinf env) self inputs"

definition ua_isnan :: "('u, 's) env \<Rightarrow> 'u pyobj uarray \<Rightarrow> 'u pyobj hinputs \<Rightarrow> error + 'u pyresult" where
  "ua_isnan env self inputs = predicate env (number_isnan env) (number_isnan env) self inputs"

text \<open>
  \<^verbatim>\<open>
  def _isfinite(self, *inputs):
      # TODO: is this correct? It doesn't match the array case below.
      if self.ndim == 0:
          return _isinf(self.item(0))
      arr, itemset, iterator = self._create_empty(inputs, dtype=bool)
      for i, item in enumerate(iterator):
          itemset(i, not (_isnan(item) or _isinf(item)))
      return arr
  \<close>
  \<^verbatim>\<open>or\<close> does not evaluate \<^verbatim>\<open>_isinf(item)\<close> when \<^verbatim>\<open>_isnan(item)\<close> is true.
\<close>

definition number_isfinite :: "('u, 's) env \<Rightarrow> 'u pyobj \<Rightarrow> error + bool" where
  "number_isfinite env x =
     and_then (number_isnan env x) (\<lambda>nan.
       if nan then Inr False
       else and_then (number_isinf env x) (\<lambda>inf. Inr (\<not> inf)))"

definition ua_isfinite :: "('u, 's) env \<Rightarrow> 'u pyobj uarray \<Rightarrow> 'u pyobj hinputs \<Rightarrow> error + 'u pyresult" where
  "ua_isfinite env self inputs = predicate env (number_isinf env) (number_isfinite env) self inputs"

paragraph \<open>Copy\<close>

text \<open>
  \<^verbatim>\<open>
  def copy(self, order='C'):
      arr, itemset, iterator = self._create_empty(order=order)
      for i, item in enumerate(iterator):
          itemset(i, +item)
      return UncertainArray(arr, label=self.label)
  \<close>
\<close>

definition ua_copy :: "('u, 's) env \<Rightarrow> 'u pyobj uarray \<Rightarrow> error + 'u pyresult" where
  "ua_copy env self =
     and_then (ua_create_empty self None None (\<lambda>i. PyNone)) (\<lambda>(arr, iterator).
     and_then (enumerate_itemset (on_item (op_pos env)) 0 iterator arr) (\<lambda>arr.
     Inr (RUncertainArray (UncertainArray arr (label self)))))"

paragraph \<open>Intermediate results\<close>

text \<open>The decimal digits of a natural number, as \<^verbatim>\<open>"{}".format(i)\<close> writes them.\<close>

fun str_nat :: "nat \<Rightarrow> string" where
  "str_nat n = (if n < 10 then [''0123456789'' ! n] else str_nat (n div 10) @ [''0123456789'' ! (n mod 10)])"

text \<open>The argument \<^verbatim>\<open>labels\<close> of \<^verbatim>\<open>_intermediate\<close> when it is not \<^verbatim>\<open>None\<close>: one label
  shared by all elements, or a sequence of labels.\<close>

datatype labels_arg = Shared string | Sequence "string list"

text \<open>Modelled from the spec: \<^verbatim>\<open>is_sequence\<close> is imported from the package's
  \<^verbatim>\<open>__init__\<close>, which is not among the files at hand. The spec tells one shared label
  from a full sequence of labels; the first is not a sequence, the second is.\<close>

definition is_sequence :: "labels_arg \<Rightarrow> bool" where
  "is_sequence l = (case l of Shared s \<Rightarrow> False | Sequence ls \<Rightarrow> True)"

text \<open>\<^verbatim>\<open>"{}".format(labels)\<close>: a string is written as it is, a list as its items in
  quotes, separated by commas, between brackets.\<close>

fun joined :: "string list \<Rightarrow> string" where
  "joined [] = []"
| "joined [s] = [CHR 0x27] @ s @ [CHR 0x27]"
| "joined (s # t # ss) = [CHR 0x27] @ s @ [CHR 0x27] @ '', '' @ joined (t # ss)"

definition label_text :: "labels_arg \<Rightarrow> string" where
  "label_text l = (case l of Shared s \<Rightarrow> s | Sequence ls \<Rightarrow> ''['' @ joined ls @ '']'')"

text \<open>\<^verbatim>\<open>np.asarray(labels)\<close>: a 0-dimensional array for one string, a 1-dimensional array
  for a sequence of strings.\<close>

definition asarray_labels :: "labels_arg \<Rightarrow> 'u pyobj ndarray" where
  "asarray_labels l =
     (case l of
        Shared s \<Rightarrow> \<lparr>shape = [], dtype = DStr, data = [PyStr s]\<rparr>
      | Sequence ls \<Rightarrow> \<lparr>shape = [length ls], dtype = DStr, data = map PyStr ls\<rparr>)"

text \<open>\<^verbatim>\<open>self.size\<close>, the number of elements.\<close>

definition ua_size :: "('c, 'z) ndarray_scheme \<Rightarrow> nat" where
  "ua_size a = prod_list (shape a)"

text \<open>
  \<^verbatim>\<open>
  def _intermediate(self, labels):
      if labels is None:
          if self.shape == ():
              return result(self.item(0))
          arr, itemset, iterator = self._create_empty()
          for i, x in enumerate(iterator):
              itemset(i, result(x))
      else:
          if self.size > 1 and not is_sequence(labels):
              labels = ["{}[{}]".format(labels, i) for i in range(self.size)]
              labels = np.asarray(labels)
          else:
              labels = np.asarray(labels)
          if self.shape == ():
              return result(self.item(0), labels.item(0))
          arr, itemset, iterator = self._create_empty((self, labels))
          for i, (x, lbl) in enumerate(iterator):
              itemset(i, result(x, lbl))
      return UncertainArray(arr)
  \<close>
\<close>

definition indexed_labels :: "labels_arg \<Rightarrow> nat \<Rightarrow> labels_arg" where
  "indexed_labels l n = Sequence (map (\<lambda>i. label_text l @ ''['' @ str_nat i @ '']'') [0..<n])"

definition ua_intermediate ::
  "('u, 's) env \<Rightarrow> 'u pyobj uarray \<Rightarrow> labels_arg option \<Rightarrow> error + 'u pyresult" where
  "ua_intermediate env self labels =
     (case labels of
        None \<Rightarrow> of_self env None (\<lambda>x. core_result env x None) self
      | Some l \<Rightarrow>
          (let labels_array = (if 1 < ua_size self \<and> \<not> is_sequence l
                               then asarray_labels (indexed_labels l (ua_size self))
                               else asarray_labels l)
           in if shape self = [] then
                and_then (item0 self) (\<lambda>x. and_then (item0 labels_array) (\<lambda>lbl.
                and_then (core_result env x (Some lbl)) (\<lambda>v. Inr (RScalar v))))
              else
                and_then (ua_create_empty self (Some (Arrays [as_ndarray self, labels_array])) None (\<lambda>i. PyNone))
                  (\<lambda>(arr, iterator).
                and_then (enumerate_itemset (on_pair (\<lambda>x lbl. core_result env x (Some lbl))) 0 iterator arr) (\<lambda>arr.
                Inr (RUncertainArray (UncertainArray arr None))))))"

subsection \<open>Reductions\<close>

text \<open>What a reduction of numpy returns: an ndarray, or a single object (a Python object
  or a numpy scalar). A numpy scalar and a 0-dimensional array have the shape \<^verbatim>\<open>()\<close>; a
  Python object has no \<^verbatim>\<open>shape\<close>.\<close>

datatype 'u np_result = NpObject "'u pyobj" | NpArray "'u pyobj ndarray"

text \<open>
  \<^verbatim>\<open>
  def sum(self, *args, **kwargs):
      result = np.asarray(self).sum(*args, **kwargs)
      if hasattr(result, 'shape') and result.shape != ():
          return UncertainArray(result)
      else:
          return result
  \<close>
  \<^verbatim>\<open>mean\<close>, \<^verbatim>\<open>max\<close>, \<^verbatim>\<open>min\<close>, \<^verbatim>\<open>trace\<close>, \<^verbatim>\<open>cumprod\<close>, \<^verbatim>\<open>cumsum\<close>, \<^verbatim>\<open>prod\<close> and \<^verbatim>\<open>ptp\<close>
  differ in the method of numpy they call, and in nothing else. That method is the
  argument \<open>reduce\<close>.
\<close>

definition rewrap :: "'u np_result \<Rightarrow> 'u pyresult" where
  "rewrap result =
     (case result of
        NpObject v \<Rightarrow> RScalar v
      | NpArray a \<Rightarrow> (if shape a \<noteq> [] then RUncertainArray (UncertainArray a None) else RNdarray a))"

definition ua_sum ::
  "('u pyobj ndarray \<Rightarrow> 'args \<Rightarrow> error + 'u np_result) \<Rightarrow> 'u pyobj uarray \<Rightarrow> 'args \<Rightarrow> error + 'u pyresult" where
  "ua_sum reduce self args = and_then (reduce (as_ndarray self) args) (\<lambda>result. Inr (rewrap result))"

definition ua_mean ::
  "('u pyobj ndarray \<Rightarrow> 'args \<Rightarrow> error + 'u np_result) \<Rightarrow> 'u pyobj uarray \<Rightarrow> 'args \<Rightarrow> error + 'u pyresult" where
  "ua_mean reduce self args = and_then (reduce (as_ndarray self) args) (\<lambda>result. Inr (rewrap result))"

text \<open>numpy's \<^verbatim>\<open>ndarray.sum()\<close> and \<^verbatim>\<open>ndarray.mean()\<close>, called without arguments on an
  array of objects. \<^verbatim>\<open>sum\<close> adds the elements from left to right with the elements' own
  \<^verbatim>\<open>+\<close>, and is \<^verbatim>\<open>0\<close> for an array without elements. \<^verbatim>\<open>mean\<close> divides that sum by the
  number of elements with \<^verbatim>\<open>/\<close>, and is NaN for an array without elements.\<close>

fun add_all :: "('u, 's) env \<Rightarrow> 'u pyobj \<Rightarrow> 'u pyobj list \<Rightarrow> error + 'u pyobj" where
  "add_all env acc [] = Inr acc"
| "add_all env acc (x # xs) = and_then (op_add env acc x) (\<lambda>acc. add_all env acc xs)"

definition ndarray_sum :: "('u, 's) env \<Rightarrow> 'u pyobj ndarray \<Rightarrow> unit \<Rightarrow> error + 'u np_result" where
  "ndarray_sum env a args =
     (case data a of
        [] \<Rightarrow> Inr (NpObject (PyInt 0))
      | x # xs \<Rightarrow> and_then (add_all env x xs) (\<lambda>total. Inr (NpObject total)))"

definition ndarray_mean :: "('u, 's) env \<Rightarrow> 'u pyobj ndarray \<Rightarrow> unit \<Rightarrow> error + 'u np_result" where
  "ndarray_mean env a args =
     (case data a of
        [] \<Rightarrow> Inr (NpObject (PyFloat NaN))
      | x # xs \<Rightarrow>
          and_then (add_all env x xs) (\<lambda>total.
          and_then (op_truediv env total (PyInt (int (length (data a))))) (\<lambda>m. Inr (NpObject m))))"

subsection \<open>Unsupported reductions\<close>

text \<open>
  \<^verbatim>\<open>
  def std(self, *args, **kwargs):
      raise TypeError("`std` is not defined for `UncertainArray`")
  def var(self, *args, **kwargs):
      raise TypeError("`var` is not defined for `UncertainArray`")
  \<close>
\<close>

definition ua_std :: "'u pyobj uarray \<Rightarrow> 'args \<Rightarrow> 'kwargs \<Rightarrow> error + 'u pyresult" where
  "ua_std self args kwargs = Inl TypeError"

definition ua_var :: "'u pyobj uarray \<Rightarrow> 'args \<Rightarrow> 'kwargs \<Rightarrow> error + 'u pyresult" where
  "ua_var self args kwargs = Inl TypeError"

subsection \<open>Broadcasting\<close>

text \<open>numpy's rule, on the shapes read from the last axis backwards: two sizes agree
  when they are equal or one of them is 1, and the other one is then the size of the
  result; the longer shape supplies the axes the shorter one lacks.\<close>

fun broadcast_axes :: "nat list \<Rightarrow> nat list \<Rightarrow> nat list option" where
  "broadcast_axes [] ys = Some ys"
| "broadcast_axes (x # xs) [] = Some (x # xs)"
| "broadcast_axes (x # xs) (y # ys) =
     (if x = y \<or> y = 1 then map_option ((#) x) (broadcast_axes xs ys)
      else if x = 1 then map_option ((#) y) (broadcast_axes xs ys)
      else None)"

definition broadcast_shape :: "nat list \<Rightarrow> nat list \<Rightarrow> nat list option" where
  "broadcast_shape sa sb = map_option rev (broadcast_axes (rev sa) (rev sb))"

text \<open>The elements, in flat order, of an array with cells \<open>xs\<close> and shape \<open>src\<close> seen
  with the shape \<open>tgt\<close> of the same length: along an axis where the sizes are equal
  the blocks of the array follow each other, along an axis of size 1 its one block is
  repeated.\<close>

fun stretch :: "nat list \<Rightarrow> nat list \<Rightarrow> 'e list \<Rightarrow> 'e list" where
  "stretch (d # tgt) (c # src) xs =
     (if c = d
      then concat (map (\<lambda>i. stretch tgt src (take (prod_list src) (drop (i * prod_list src) xs))) [0..<d])
      else concat (replicate d (stretch tgt src xs)))"
| "stretch tgt src xs = xs"

text \<open>One of the iterators of \<^verbatim>\<open>np.broadcast(...).iters\<close>: the array is given axes of
  size 1 in front until it has as many as the broadcast shape.\<close>

definition broadcast_flat :: "nat list \<Rightarrow> ('e, 'z) ndarray_scheme \<Rightarrow> 'e list" where
  "broadcast_flat tgt a = stretch tgt (replicate (length tgt - length (shape a)) 1 @ shape a) (data a)"

text \<open>The same view by position, as numpy's strides give it: the flat position in the
  array of the element that stands at flat position \<open>i\<close> of the view. An axis of equal
  size contributes its coordinate times the size of a block, a stretched axis of size 1
  contributes nothing. Lemma \<open>broadcast_flat_nth\<close> below relates the two.\<close>

fun source_index :: "nat list \<Rightarrow> nat list \<Rightarrow> nat \<Rightarrow> nat" where
  "source_index (d # tgt) (c # src) i =
     (if c = d then (i div prod_list tgt) * prod_list src else 0) + source_index tgt src (i mod prod_list tgt)"
| "source_index tgt src i = 0"

text \<open>\<^verbatim>\<open>np.broadcast(a, b)\<close>: its \<^verbatim>\<open>shape\<close> and its \<^verbatim>\<open>iters\<close>; ValueError when the shapes do
  not agree.\<close>

definition np_broadcast :: "'e ndarray \<Rightarrow> 'e ndarray \<Rightarrow> error + (nat list \<times> 'e list list)" where
  "np_broadcast a b =
     (case broadcast_shape (shape a) (shape b) of
        None \<Rightarrow> Inl ValueError
      | Some s \<Rightarrow> Inr (s, [broadcast_flat s a, broadcast_flat s b]))"

subsection \<open>Dispatch\<close>

text \<open>The universal functions of numpy for which the class has a handler of the name
  \<^verbatim>\<open>'_' + ufunc.__name__\<close>, and \<open>U_other\<close> for one without. (\<^verbatim>\<open>arctan2\<close> has a handler in
  the source, which is not embedded here.)\<close>

datatype ufunc =
    U_conjugate | U_positive | U_negative
  | U_add | U_subtract | U_multiply | U_divide | U_true_divide | U_power
  | U_exp | U_log | U_log10 | U_sqrt | U_cos | U_sin | U_tan
  | U_arccos | U_arcsin | U_arctan | U_sinh | U_cosh | U_tanh
  | U_arccosh | U_arcsinh | U_arctanh | U_square
  | U_equal | U_not_equal | U_less | U_less_equal | U_greater | U_greater_equal
  | U_maximum | U_minimum
  | U_logical_and | U_logical_or | U_logical_xor | U_logical_not
  | U_isinf | U_isnan | U_isfinite
  | U_reciprocal | U_absolute
  | U_other

text \<open>\<^verbatim>\<open>getattr(self, '_' + ufunc.__name__)\<close>, with \<^verbatim>\<open>None\<close> for a missing attribute.\<close>

fun handler :: "('u, 's) env \<Rightarrow> ufunc \<Rightarrow> ('u pyobj uarray \<Rightarrow> 'u pyobj hinputs \<Rightarrow> error + 'u pyresult) option" where
  "handler env U_conjugate = Some (ua_conjugate env)"
| "handler env U_positive = Some (ua_positive env)"
| "handler env U_negative = Some (ua_negative env)"
| "handler env U_add = Some (ua_add env)"
| "handler env U_subtract = Some (ua_subtract env)"
| "handler env U_multiply = Some (ua_multiply env)"
| "handler env U_divide = Some (ua_divide env)"
| "handler env U_true_divide = Some (ua_true_divide env)"
| "handler env U_power = Some (ua_power env)"
| "handler env U_exp = Some (ua_exp env)"
| "handler env U_log = Some (ua_core env Log)"
| "handler env U_log10 = Some (ua_core env Log10)"
| "handler env U_sqrt = Some (ua_core env Sqrt)"
| "handler env U_cos = Some (ua_core env Cos)"
| "handler env U_sin = Some (ua_core env Sin)"
| "handler env U_tan = Some (ua_core env Tan)"
| "handler env U_arccos = Some (ua_core env Acos)"
| "handler env U_arcsin = Some (ua_core env Asin)"
| "handler env U_arctan = Some (ua_core env Atan)"
| "handler env U_sinh = Some (ua_core env Sinh)"
| "handler env U_cosh = Some (ua_core env Cosh)"
| "handler env U_tanh = Some (ua_core env Tanh)"
| "handler env U_arccosh = Some (ua_core env Acosh)"
| "handler env U_arcsinh = Some (ua_core env Asinh)"
| "handler env U_arctanh = Some (ua_core env Atanh)"
| "handler env U_square = Some (ua_core env Mag_squared)"
| "handler env U_equal = Some (ua_equal env)"
| "handler env U_not_equal = Some (ua_not_equal env)"
| "handler env U_less = Some (ua_less env)"
| "handler env U_less_equal = Some (ua_less_equal env)"
| "handler env U_greater = Some (ua_greater env)"
| "handler env U_greater_equal = Some (ua_greater_equal env)"
| "handler env U_maximum = Some (ua_maximum env)"
| "handler env U_minimum = Some (ua_minimum env)"
| "handler env U_logical_and = Some (ua_logical_and env)"
| "handler env U_logical_or = Some (ua_logical_or env)"
| "handler env U_logical_xor = Some (ua_logical_xor env)"
| "handler env U_logical_not = Some (ua_logical_not env)"
| "handler env U_isinf = Some (ua_isinf env)"
| "handler env U_isnan = Some (ua_isnan env)"
| "handler env U_isfinite = Some (ua_isfinite env)"
| "handler env U_reciprocal = Some (ua_reciprocal env)"
| "handler env U_absolute = Some (ua_absolute env)"
| "handler env U_other = None"

text \<open>An input of the call: an instance of \<^verbatim>\<open>np.ndarray\<close> (an \<^verbatim>\<open>UncertainArray\<close> is one;
  the engine reads its shape and its cells), an instance of \<^verbatim>\<open>Number\<close>,
  \<^verbatim>\<open>UncertainReal\<close> or \<^verbatim>\<open>UncertainComplex\<close>, or anything else.\<close>

datatype ('u, 's) operand = Array "'u pyobj ndarray" | Scalar "'u pyobj" | Foreign 's

definition is_ndarray :: "('u, 's) operand \<Rightarrow> bool" where
  "is_ndarray x = (case x of Array a \<Rightarrow> True | _ \<Rightarrow> False)"

text \<open>\<^verbatim>\<open>x.shape\<close>: a number, a list or a tuple has no such attribute.\<close>

definition operand_shape :: "('u, 's) operand \<Rightarrow> error + nat list" where
  "operand_shape x = (case x of Array a \<Rightarrow> Inr (shape a) | _ \<Rightarrow> Inl AttributeError)"

text \<open>\<^verbatim>\<open>np.full(shape, x, dtype=object)\<close>.\<close>

definition np_full :: "nat list \<Rightarrow> 'e \<Rightarrow> 'e ndarray" where
  "np_full shp x = \<lparr>shape = shp, dtype = DObject, data = replicate (prod_list shp) x\<rparr>"

text \<open>
  The conversion of the input that is not an ndarray, in a call with two inputs:
  \<^verbatim>\<open>
  not0 = not isinstance(inputs[0], np.ndarray)
  if not0 or not isinstance(inputs[1], np.ndarray):
      inputs = list(inputs)
      convert, keep = (0, 1) if not0 else (1, 0)
      if isinstance(inputs[convert], (Number, UncertainReal, UncertainComplex)):
          inputs[convert] = np.full(inputs[keep].shape, inputs[convert], dtype=object)
      else:
          inputs[convert] = np.asarray(inputs[convert], dtype=object)
  \<close>
\<close>

definition coerce :: "('u, 's) env \<Rightarrow> ('u, 's) operand list \<Rightarrow> error + ('u, 's) operand list" where
  "coerce env inputs =
     (let not0 = \<not> is_ndarray (inputs ! 0) in
      if not0 \<or> \<not> is_ndarray (inputs ! 1) then
        (let convert = (if not0 then 0 else 1); keep = (if not0 then 1 else 0) in
         case inputs ! convert of
           Scalar x \<Rightarrow>
             and_then (operand_shape (inputs ! keep)) (\<lambda>shp. Inr (inputs[convert := Array (np_full shp x)]))
         | Foreign s \<Rightarrow>
             and_then (np_asarray env (Other s) DObject) (\<lambda>a. Inr (inputs[convert := Array a]))
         | Array a \<Rightarrow> Inr inputs)
      else Inr inputs)"

text \<open>
  \<^verbatim>\<open>
  def __array_ufunc__(self, ufunc, method, *inputs, **kwargs):
      try:
          attr = getattr(self, '_' + ufunc.__name__)
      except AttributeError:
          attr = None
      if attr is None:
          raise NotImplementedError('The {} function has not been implemented'.format(ufunc))
      if kwargs:
          warnings.warn(...)
      case = len(inputs)
      if case == 1:
          pass  # Must be an UncertainArray
      elif case == 2:
          ... the conversion above ...
          self._broadcasted_shape = None
          if inputs[0].shape != inputs[1].shape:
              broadcasted = np.broadcast(*inputs)
              inputs = broadcasted.iters
              self._broadcasted_shape = broadcasted.shape
      else:
          assert False, 'Should not occur: __array_ufunc__ received {} inputs'.format(case)
      return attr(*inputs)
  \<close>
  The method assigns to \<^verbatim>\<open>self._broadcasted_shape\<close>, so the model returns \<open>self\<close> as the
  call leaves it, next to the result or the exception. \<^verbatim>\<open>method\<close> is not read; the
  keyword arguments cause a warning and nothing else, and are left out.
\<close>

definition ua_array_ufunc ::
  "('u, 's) env \<Rightarrow> 'u pyobj uarray \<Rightarrow> ufunc \<Rightarrow> ('u, 's) operand list \<Rightarrow> (error + 'u pyresult) \<times> 'u pyobj uarray" where
  "ua_array_ufunc env self uf inputs =
     (case handler env uf of
        None \<Rightarrow> (Inl NotImplementedError, self)
      | Some attr \<Rightarrow>
          if length inputs = 1 then
            (attr self (case inputs ! 0 of Array a \<Rightarrow> Arrays [a] | _ \<Rightarrow> NotArray), self)
          else if length inputs = 2 then
            (case coerce env inputs of
               Inl e \<Rightarrow> (Inl e, self)
             | Inr inputs \<Rightarrow>
                 (let self = self\<lparr>broadcasted_shape := None\<rparr> in
                  case (inputs ! 0, inputs ! 1) of
                    (Array a, Array b) \<Rightarrow>
                      if shape a \<noteq> shape b then
                        (case np_broadcast a b of
                           Inl e \<Rightarrow> (Inl e, self)
                         | Inr (shp, iters) \<Rightarrow>
                             (let self = self\<lparr>broadcasted_shape := Some shp\<rparr>
                              in (attr self (Iters iters), self)))
                      else (attr self (Arrays [a, b]), self)
                  | _ \<Rightarrow> (Inl AttributeError, self)))
          else (Inl AssertionError, self))"

subsection \<open>Plain Python numbers as elements\<close>

text \<open>For runs on concrete arrays: a collaborator for elements that are plain Python
  numbers. It gives the operations that Python computes exactly (on \<^verbatim>\<open>int\<close>:
  negation, addition, comparison, truth, and a division whose quotient is an integer
  of at most 53 bits; \<^verbatim>\<open>value(x)\<close>, which is \<open>x\<close> for a plain number) and the error
  \<open>Unmodelled\<close> for every other operation, so that nothing can rest on a result it
  does not compute.\<close>

definition plain_value :: "'u pyobj \<Rightarrow> error + 'u pyobj" where
  "plain_value x = (case x of Uncertain u \<Rightarrow> Inl Unmodelled | _ \<Rightarrow> Inr x)"

definition plain_neg :: "'u pyobj \<Rightarrow> error + 'u pyobj" where
  "plain_neg x = (case x of PyInt n \<Rightarrow> Inr (PyInt (- n)) | _ \<Rightarrow> Inl Unmodelled)"

definition plain_add :: "'u pyobj \<Rightarrow> 'u pyobj \<Rightarrow> error + 'u pyobj" where
  "plain_add a b =
     (case a of
        PyInt m \<Rightarrow> (case b of PyInt n \<Rightarrow> Inr (PyInt (m + n)) | _ \<Rightarrow> Inl Unmodelled)
      | _ \<Rightarrow> Inl Unmodelled)"

definition plain_truediv :: "'u pyobj \<Rightarrow> 'u pyobj \<Rightarrow> error + 'u pyobj" where
  "plain_truediv a b =
     (case a of
        PyInt m \<Rightarrow>
          (case b of
             PyInt n \<Rightarrow>
               (if n = 0 then Inl ZeroDivisionError
                else if n dvd m \<and> \<bar>m div n\<bar> \<le> 2 ^ 53 then Inr (PyFloat (Finite (of_int (m div n))))
                else Inl Unmodelled)
           | _ \<Rightarrow> Inl Unmodelled)
      | _ \<Rightarrow> Inl Unmodelled)"

definition plain_compare :: "(int \<Rightarrow> int \<Rightarrow> bool) \<Rightarrow> 'u pyobj \<Rightarrow> 'u pyobj \<Rightarrow> error + 'u pyobj" where
  "plain_compare rel a b =
     (case a of
        PyInt m \<Rightarrow> (case b of PyInt n \<Rightarrow> Inr (PyBool (rel m n)) | _ \<Rightarrow> Inl Unmodelled)
      | _ \<Rightarrow> Inl Unmodelled)"

definition plain_truth :: "'u pyobj \<Rightarrow> error + bool" where
  "plain_truth x =
     (case x of
        PyNone \<Rightarrow> Inr False
      | PyBool b \<Rightarrow> Inr b
      | PyInt n \<Rightarrow> Inr (n \<noteq> 0)
      | _ \<Rightarrow> Inl Unmodelled)"

definition plain :: "('u, 's) env" where
  "plain =
     \<lparr>core_value = plain_value,
      core_uncertainty = (\<lambda>x. Inl Unmodelled),
      core_variance = (\<lambda>x. Inl Unmodelled),
      core_dof = (\<lambda>x. Inl Unmodelled),
      core_apply = (\<lambda>fn x. Inl Unmodelled),
      core_result = (\<lambda>x lbl. Inl Unmodelled),
      attr_real = (\<lambda>x. Inl Unmodelled),
      attr_imag = (\<lambda>x. Inl Unmodelled),
      attr_r = (\<lambda>x. Inl Unmodelled),
      meth_conjugate = (\<lambda>x. Inl Unmodelled),
      op_pos = (\<lambda>x. Inl Unmodelled),
      op_neg = plain_neg,
      op_abs = (\<lambda>x. Inl Unmodelled),
      op_add = plain_add,
      op_sub = (\<lambda>x y. Inl Unmodelled),
      op_mul = (\<lambda>x y. Inl Unmodelled),
      op_truediv = plain_truediv,
      op_pow = (\<lambda>x y. Inl Unmodelled),
      op_eq = plain_compare (=),
      op_ne = plain_compare (\<noteq>),
      op_lt = plain_compare (<),
      op_le = plain_compare (\<le>),
      op_gt = plain_compare (>),
      op_ge = plain_compare (\<ge>),
      truth = plain_truth,
      uninit_bool = (\<lambda>i. False),
      uninit = (\<lambda>d i. PyNone),
      cast = (\<lambda>d x. Inl Unmodelled),
      np_convert = (\<lambda>x d. Inl Unmodelled)\<rparr>"

text \<open>\<^verbatim>\<open>uarray(cells)\<close> for a flat list of cells: the 1-dimensional array of objects that
  holds them, as \<^verbatim>\<open>__new__\<close> leaves it; and the 0-dimensional array of one cell.\<close>

definition uarray1 :: "'c list \<Rightarrow> 'c uarray" where
  "uarray1 cells = UncertainArray \<lparr>shape = [length cells], dtype = DObject, data = cells\<rparr> None"

definition uarray0 :: "'c \<Rightarrow> 'c uarray" where
  "uarray0 cell = UncertainArray \<lparr>shape = [], dtype = DObject, data = [cell]\<rparr> None"

section \<open>Properties\<close>

subsection \<open>Auxiliary facts\<close>

lemma and_then_Inr [simp]: "and_then (Inr v) f = f v"
  by (simp add: and_then_def)

lemma and_then_Inl [simp]: "and_then (Inl e) f = Inl e"
  by (simp add: and_then_def)

lemma and_then_eq_Inr: "and_then m f = Inr r \<longleftrightarrow> (\<exists>v. m = Inr v \<and> f v = Inr r)"
  by (cases m) simp_all

lemma ua_new_PlainNdarray: "ua_new env (PlainNdarray a) hint lbl = Inr (UncertainArray a lbl)"
  by (simp add: ua_new_def np_asarray_def UncertainArray_def Let_def)

lemma np_asarray_dtype: "np_asarray env (Other s) d = Inr obj \<Longrightarrow> dtype obj = d"
  by (cases "np_convert env (Other s) d") (auto simp: np_asarray_def Let_def split: prod.splits)

text \<open>Whatever the dispatch returns was returned by the handler, called on \<open>self\<close> with
  at most its scratch attribute changed.\<close>

lemma array_ufunc_returns:
  assumes "fst (ua_array_ufunc env self uf inputs) = Inr r"
  shows "\<exists>attr bs hin. handler env uf = Some attr \<and> attr (self\<lparr>broadcasted_shape := bs\<rparr>) hin = Inr r"
proof -
  obtain attr where h: "handler env uf = Some attr"
    using assms by (cases "handler env uf") (simp_all add: ua_array_ufunc_def)
  consider (one) "length inputs = 1" | (two) "length inputs = 2"
    | (other) "length inputs \<noteq> 1" "length inputs \<noteq> 2"
    by blast
  then show ?thesis
  proof cases
    case one
    then have "attr self (case inputs ! 0 of Array a \<Rightarrow> Arrays [a] | _ \<Rightarrow> NotArray) = Inr r"
      using assms h by (simp add: ua_array_ufunc_def)
    moreover have "self\<lparr>broadcasted_shape := broadcasted_shape self\<rparr> = self" by simp
    ultimately show ?thesis using h by metis
  next
    case two
    show ?thesis
    proof (cases "coerce env inputs")
      case (Inl e)
      then show ?thesis using assms h two by (simp add: ua_array_ufunc_def)
    next
      case (Inr ins)
      show ?thesis
      proof (cases "ins ! 0")
        case (Array a)
        show ?thesis
        proof (cases "ins ! 1")
          case b: (Array b)
          show ?thesis
          proof (cases "shape a = shape b")
            case True
            then have "attr (self\<lparr>broadcasted_shape := None\<rparr>) (Arrays [a, b]) = Inr r"
              using assms h two Inr Array b by (simp add: ua_array_ufunc_def Let_def)
            then show ?thesis using h by blast
          next
            case False
            show ?thesis
            proof (cases "np_broadcast a b")
              case (Inl e)
              then show ?thesis
                using assms h two Inr Array b False by (simp add: ua_array_ufunc_def Let_def)
            next
              case bc: (Inr p)
              obtain shp iters where p: "p = (shp, iters)" by (cases p)
              have "attr (self\<lparr>broadcasted_shape := Some shp\<rparr>) (Iters iters) = Inr r"
                using assms h two Inr Array b False bc p by (simp add: ua_array_ufunc_def Let_def)
              then show ?thesis using h by blast
            qed
          qed
        qed (use assms h two Inr Array in \<open>simp_all add: ua_array_ufunc_def Let_def\<close>)
      qed (use assms h two Inr in \<open>simp_all add: ua_array_ufunc_def Let_def\<close>)
    qed
  next
    case other
    then show ?thesis using assms h by (simp add: ua_array_ufunc_def)
  qed
qed

paragraph \<open>The loop and the buffer\<close>

lemma itemset_eq_Inr: "itemset a i v = Inr a' \<Longrightarrow> shape a' = shape a \<and> dtype a' = dtype a \<and> length (data a') = length (data a)"
  by (auto simp: itemset_def split: if_splits)

lemma enumerate_itemset_frame:
  "enumerate_itemset f i xs arr = Inr arr' \<Longrightarrow>
     shape arr' = shape arr \<and> dtype arr' = dtype arr \<and> length (data arr') = length (data arr)"
proof (induction xs arbitrary: i arr)
  case Nil
  then show ?case by simp
next
  case (Cons x xs)
  from Cons.prems obtain v a1 where "f x = Inr v" and a1: "itemset arr i v = Inr a1"
    and rest: "enumerate_itemset f (Suc i) xs a1 = Inr arr'"
    by (auto simp: and_then_eq_Inr)
  from Cons.IH [OF rest] itemset_eq_Inr [OF a1] show ?case by simp
qed

lemma create_empty_buffer:
  "ua_create_empty self inputs dtype_arg init = Inr (arr, iterator) \<Longrightarrow>
     dtype arr = (case dtype_arg of None \<Rightarrow> DObject | Some d \<Rightarrow> d) \<and>
     shape arr = (case broadcasted_shape self of None \<Rightarrow> shape self | Some s \<Rightarrow> s)"
  by (auto simp: ua_create_empty_def np_empty_def Let_def split: option.splits hinputs.splits if_splits)

lemma comparison_result:
  assumes "shape self \<noteq> []" and "comparison env f self hin = Inr r"
  shows "\<exists>b. r = RNdarrayBool b"
  using assms by (auto simp: comparison_def and_then_eq_Inr)

lemma predicate_result:
  assumes "shape self \<noteq> []" and "predicate env p0 p self hin = Inr r"
  shows "\<exists>b. r = RNdarrayBool b"
  using assms by (auto simp: predicate_def and_then_eq_Inr)

lemma logical_not_result:
  assumes "ua_logical_not env self hin = Inr r"
  shows "\<exists>b. r = RNdarrayBool b"
  using assms by (auto simp: ua_logical_not_def and_then_eq_Inr)

lemma of_pairs_result:
  assumes "shape self \<noteq> []" and "of_pairs f0 f self hin = Inr r"
  shows "\<exists>u. r = RUncertainArray u \<and> dtype u = DObject"
proof -
  from assms obtain arr iterator arr' where
    ce: "ua_create_empty self (Some hin) None (\<lambda>i. PyNone :: 'a pyobj) = Inr (arr, iterator)"
    and loop: "enumerate_itemset (on_pair f) 0 iterator arr = Inr arr'"
    and r: "r = RUncertainArray (UncertainArray arr' None)"
    by (auto simp: of_pairs_def and_then_eq_Inr)
  from create_empty_buffer [OF ce] enumerate_itemset_frame [OF loop]
  have "dtype arr' = DObject" by simp
  then show ?thesis using r by (simp add: UncertainArray_def view_UncertainArray_def)
qed

lemma handler_boolean:
  assumes "uf \<in> {U_equal, U_not_equal, U_less, U_less_equal, U_greater, U_greater_equal,
               U_isnan, U_isinf, U_isfinite, U_logical_not}"
    and "handler env uf = Some attr" and "shape self \<noteq> []" and "attr self hin = Inr r"
  shows "\<exists>b. r = RNdarrayBool b"
proof -
  have c: "\<And>f. attr = comparison env f \<Longrightarrow> ?thesis"
    using assms(3,4) comparison_result by blast
  have p: "\<And>p0 p. attr = predicate env p0 p \<Longrightarrow> ?thesis"
    using assms(3,4) predicate_result by blast
  have n: "attr = ua_logical_not env \<Longrightarrow> ?thesis"
    using assms(4) logical_not_result by blast
  have e: "ua_equal env = comparison env (op_eq env)" "ua_not_equal env = comparison env (op_ne env)"
    "ua_less env = comparison env (op_lt env)" "ua_less_equal env = comparison env (op_le env)"
    "ua_greater env = comparison env (op_gt env)" "ua_greater_equal env = comparison env (op_ge env)"
    "ua_isnan env = predicate env (number_isnan env) (number_isnan env)"
    "ua_isinf env = predicate env (number_isinf env) (number_isinf env)"
    "ua_isfinite env = predicate env (number_isinf env) (number_isfinite env)"
    by (intro ext, simp add: ua_equal_def ua_not_equal_def ua_less_def ua_less_equal_def ua_greater_def
      ua_greater_equal_def ua_isnan_def ua_isinf_def ua_isfinite_def)+
  from assms(1) have "uf = U_equal \<or> uf = U_not_equal \<or> uf = U_less \<or> uf = U_less_equal
      \<or> uf = U_greater \<or> uf = U_greater_equal \<or> uf = U_isnan \<or> uf = U_isinf \<or> uf = U_isfinite
      \<or> uf = U_logical_not"
    by simp
  then show ?thesis
    using assms(2) c p n e by (elim disjE) (simp_all, metis+)
qed

lemma handler_and_or:
  assumes "uf \<in> {U_logical_and, U_logical_or}"
    and "handler env uf = Some attr" and "shape self \<noteq> []" and "attr self hin = Inr r"
  shows "\<exists>u. r = RUncertainArray u \<and> dtype u = DObject"
proof -
  have o: "\<And>f0 f. attr = of_pairs f0 f \<Longrightarrow> ?thesis"
    using assms(3,4) of_pairs_result by blast
  have e: "ua_logical_and env = of_pairs (py_and env) (py_and env)"
    "ua_logical_or env = of_pairs (py_or env) (py_or env)"
    by (intro ext, simp add: ua_logical_and_def ua_logical_or_def)+
  from assms(1) have "uf = U_logical_and \<or> uf = U_logical_or" by simp
  then show ?thesis
    using assms(2) o e by (elim disjE) (simp_all, metis+)
qed

lemma enumerate_itemset_all:
  assumes "\<forall>x\<in>set xs. \<exists>v. f x = Inr v" and "k + length xs \<le> length (data arr)"
  shows "enumerate_itemset f k xs arr
     = Inr (arr\<lparr>data := take k (data arr) @ map (\<lambda>x. projr (f x)) xs @ drop (k + length xs) (data arr)\<rparr>)"
  using assms
proof (induction xs arbitrary: k arr)
  case Nil
  then show ?case by simp
next
  case (Cons x xs)
  from Cons.prems obtain v where v: "f x = Inr v" by auto
  from Cons.prems have k: "k < length (data arr)" by simp
  let ?arr = "arr\<lparr>data := (data arr)[k := v]\<rparr>"
  have step: "itemset arr k v = Inr ?arr" using k by (simp add: itemset_def)
  have "enumerate_itemset f (Suc k) xs ?arr
     = Inr (?arr\<lparr>data := take (Suc k) (data ?arr) @ map (\<lambda>x. projr (f x)) xs
                          @ drop (Suc k + length xs) (data ?arr)\<rparr>)"
    using Cons.prems by (intro Cons.IH) simp_all
  moreover have "take (Suc k) (data ?arr) = take k (data arr) @ [v]"
    using k by (simp add: take_Suc_conv_app_nth)
  moreover have "drop (Suc k + length xs) (data ?arr) = drop (k + length (x # xs)) (data arr)"
    by simp
  ultimately show ?case using v step by simp
qed

paragraph \<open>Broadcasting\<close>

lemma chunks_concat:
  "concat (map (\<lambda>i. take p (drop (i * p) xs)) [0..<d]) = take (d * p) xs"
proof (induction d)
  case 0
  then show ?case by simp
next
  case (Suc d)
  have "take (d * p) xs @ take p (drop (d * p) xs) = take (d * p + p) xs"
    by (simp add: take_add)
  then show ?case using Suc by (simp add: add.commute)
qed

lemma stretch_id: "length xs = prod_list s \<Longrightarrow> stretch s s xs = xs"
proof (induction s arbitrary: xs)
  case Nil
  then show ?case by simp
next
  case (Cons d s)
  have "\<And>i. i < d \<Longrightarrow> stretch s s (take (prod_list s) (drop (i * prod_list s) xs))
                      = take (prod_list s) (drop (i * prod_list s) xs)"
  proof -
    fix i assume "i < d"
    then have "Suc i \<le> d" by simp
    then have "Suc i * prod_list s \<le> d * prod_list s" by (rule mult_le_mono1)
    then have "prod_list s \<le> length xs - i * prod_list s" using Cons.prems by simp
    then show "stretch s s (take (prod_list s) (drop (i * prod_list s) xs))
                      = take (prod_list s) (drop (i * prod_list s) xs)"
      by (intro Cons.IH) simp
  qed
  then have "map (\<lambda>i. stretch s s (take (prod_list s) (drop (i * prod_list s) xs))) [0..<d]
           = map (\<lambda>i. take (prod_list s) (drop (i * prod_list s) xs)) [0..<d]"
    by simp
  then have "stretch (d # s) (d # s) xs
           = concat (map (\<lambda>i. take (prod_list s) (drop (i * prod_list s) xs)) [0..<d])"
    by (simp only: stretch.simps simp_thms if_True)
  also have "\<dots> = take (d * prod_list s) xs" by (rule chunks_concat)
  also have "\<dots> = xs" using Cons.prems by simp
  finally show ?case .
qed

lemma stretch_length:
  assumes "list_all2 (\<lambda>d c. c = d \<or> c = 1) tgt src" and "length xs = prod_list src"
  shows "length (stretch tgt src xs) = prod_list tgt"
  using assms
proof (induction tgt src arbitrary: xs rule: list_all2_induct)
  case Nil
  then show ?case by simp
next
  case (Cons d tgt c src)
  show ?case
  proof (cases "c = d")
    case True
    have "\<And>i. i < d \<Longrightarrow> length (stretch tgt src (take (prod_list src) (drop (i * prod_list src) xs))) = prod_list tgt"
    proof -
      fix i assume "i < d"
      then have "Suc i \<le> d" by simp
      then have "Suc i * prod_list src \<le> d * prod_list src" by (rule mult_le_mono1)
      then have "prod_list src \<le> length xs - i * prod_list src" using Cons.prems True by simp
      then show "length (stretch tgt src (take (prod_list src) (drop (i * prod_list src) xs))) = prod_list tgt"
        by (intro Cons.IH) simp
    qed
    then have "map (\<lambda>i. length (stretch tgt src (take (prod_list src) (drop (i * prod_list src) xs)))) [0..<d]
             = map (\<lambda>i. prod_list tgt) [0..<d]"
      by simp
    then have "sum_list (map (\<lambda>i. length (stretch tgt src (take (prod_list src) (drop (i * prod_list src) xs)))) [0..<d])
             = sum_list (map (\<lambda>i. prod_list tgt) [0..<d])"
      by (rule arg_cong)
    also have "\<dots> = d * prod_list tgt" by (simp add: sum_list_triv)
    finally have "length (concat (map (\<lambda>i. stretch tgt src (take (prod_list src) (drop (i * prod_list src) xs))) [0..<d]))
             = d * prod_list tgt"
      by (simp only: length_concat map_map comp_def)
    then show ?thesis using True by (simp only: stretch.simps simp_thms if_True prod_list.Cons)
  next
    case False
    then have c: "c = 1" using Cons.hyps by simp
    then have "length (stretch tgt src xs) = prod_list tgt"
      using Cons.prems by (intro Cons.IH) simp
    then show ?thesis using False by (simp add: length_concat sum_list_replicate)
  qed
qed

lemma all2_ones: "list_all2 (\<lambda>d c. c = d \<or> c = (1::nat)) ys (replicate (length ys) 1)"
  by (simp add: list_all2_conv_all_nth)

lemma all2_same: "list_all2 (\<lambda>d c. c = d \<or> c = (1::nat)) ys ys"
  by (simp add: list_all2_conv_all_nth)

lemma broadcast_axes_compat:
  "broadcast_axes xs ys = Some zs \<Longrightarrow>
     list_all2 (\<lambda>d c. c = d \<or> c = 1) zs (xs @ replicate (length zs - length xs) 1) \<and>
     list_all2 (\<lambda>d c. c = d \<or> c = 1) zs (ys @ replicate (length zs - length ys) 1)"
proof (induction xs ys arbitrary: zs rule: broadcast_axes.induct)
  case (1 ys)
  then have "zs = ys" by simp
  then show ?case using all2_ones [of ys] all2_same [of ys] by simp
next
  case (2 x xs)
  then have "zs = x # xs" by simp
  then show ?case using all2_ones [of "x # xs"] all2_same [of "x # xs"] by simp
next
  case (3 x xs y ys)
  show ?case
  proof (cases "x = y \<or> y = 1")
    case True
    with "3.prems" obtain zs' where z: "broadcast_axes xs ys = Some zs'" "zs = x # zs'"
      by auto
    from "3.IH"(1) [OF True z(1)] True z(2) show ?thesis by auto
  next
    case False
    with "3.prems" have x: "x = 1" by (auto split: if_splits)
    with False "3.prems" obtain zs' where z: "broadcast_axes xs ys = Some zs'" "zs = y # zs'"
      by auto
    from "3.IH"(2) [OF False x z(1)] x z(2) show ?thesis by auto
  qed
qed

lemma broadcast_shape_compat:
  assumes "broadcast_shape sa sb = Some s"
  shows "list_all2 (\<lambda>d c. c = d \<or> c = 1) s (replicate (length s - length sa) 1 @ sa)"
    and "list_all2 (\<lambda>d c. c = d \<or> c = 1) s (replicate (length s - length sb) 1 @ sb)"
proof -
  from assms obtain zs where z: "broadcast_axes (rev sa) (rev sb) = Some zs" and s: "s = rev zs"
    by (auto simp: broadcast_shape_def)
  from broadcast_axes_compat [OF z]
  have a: "list_all2 (\<lambda>d c. c = d \<or> c = 1) zs (rev sa @ replicate (length zs - length sa) 1)"
    and b: "list_all2 (\<lambda>d c. c = d \<or> c = 1) zs (rev sb @ replicate (length zs - length sb) 1)"
    by simp_all
  have "list_all2 (\<lambda>d c. c = d \<or> c = 1) (rev (rev zs)) (rev (replicate (length zs - length sa) 1 @ sa))"
    using a by simp
  then show "list_all2 (\<lambda>d c. c = d \<or> c = 1) s (replicate (length s - length sa) 1 @ sa)"
    unfolding s list_all2_rev by simp
  have "list_all2 (\<lambda>d c. c = d \<or> c = 1) (rev (rev zs)) (rev (replicate (length zs - length sb) 1 @ sb))"
    using b by simp
  then show "list_all2 (\<lambda>d c. c = d \<or> c = 1) s (replicate (length s - length sb) 1 @ sb)"
    unfolding s list_all2_rev by simp
qed

lemma broadcast_flat_length:
  assumes "list_all2 (\<lambda>d c. c = d \<or> c = 1) s (replicate (length s - length (shape a)) 1 @ shape a)"
    and "well_formed a"
  shows "length (broadcast_flat s a) = prod_list s"
  unfolding broadcast_flat_def
  using assms by (intro stretch_length) (simp_all add: well_formed_def)

lemma broadcast_axes_same: "broadcast_axes xs xs = Some xs"
  by (induction xs) simp_all

lemma broadcast_shape_same: "broadcast_shape s s = Some s"
  by (simp add: broadcast_shape_def broadcast_axes_same)

lemma broadcast_flat_same: "well_formed a \<Longrightarrow> broadcast_flat (shape a) a = data a"
  by (simp add: broadcast_flat_def well_formed_def stretch_id)

lemma nth_concat_blocks:
  assumes "\<forall>b\<in>set bs. length b = m" and "i < length bs * m"
  shows "concat bs ! i = (bs ! (i div m)) ! (i mod m)"
  using assms
proof (induction bs arbitrary: i)
  case Nil
  then show ?case by simp
next
  case (Cons b bs)
  have m: "0 < m" using Cons.prems(2) by (cases m) simp_all
  show ?case
  proof (cases "i < m")
    case True
    then show ?thesis using Cons.prems by (simp add: nth_append)
  next
    case False
    then have ge: "m \<le> i" by simp
    have "i - m < length bs * m" using Cons.prems(2) ge by simp
    with Cons have ih: "concat bs ! (i - m) = (bs ! ((i - m) div m)) ! ((i - m) mod m)" by simp
    have d: "i div m = Suc ((i - m) div m)" using ge m by (simp add: le_div_geq)
    have r: "(i - m) mod m = i mod m" using ge by (simp add: le_mod_geq)
    have "concat (b # bs) ! i = concat bs ! (i - m)"
      using Cons.prems(1) False by (simp add: nth_append)
    then show ?thesis using ih d r by simp
  qed
qed

lemma source_index_less:
  assumes "list_all2 (\<lambda>d c. c = d \<or> c = 1) tgt src" and "i < prod_list tgt"
  shows "source_index tgt src i < prod_list src"
  using assms
proof (induction tgt src arbitrary: i rule: list_all2_induct)
  case Nil
  then show ?case by simp
next
  case (Cons d tgt c src)
  from Cons.prems have pt: "0 < prod_list tgt" by (cases "prod_list tgt") simp_all
  then have "i mod prod_list tgt < prod_list tgt" by simp
  from Cons.IH [OF this] have si: "source_index tgt src (i mod prod_list tgt) < prod_list src" .
  show ?case
  proof (cases "c = d")
    case True
    have "i div prod_list tgt < d"
      using Cons.prems pt by (simp add: less_mult_imp_div_less mult.commute)
    then have "Suc (i div prod_list tgt) * prod_list src \<le> d * prod_list src"
      by (intro mult_le_mono1) simp
    then show ?thesis using True si by simp
  next
    case False
    then have "c = 1" using Cons.hyps by simp
    then show ?thesis using False si by simp
  qed
qed

lemma stretch_nth:
  assumes "list_all2 (\<lambda>d c. c = d \<or> c = 1) tgt src" and "length xs = prod_list src"
    and "i < prod_list tgt"
  shows "stretch tgt src xs ! i = xs ! source_index tgt src i"
  using assms
proof (induction tgt src arbitrary: xs i rule: list_all2_induct)
  case Nil
  then show ?case by simp
next
  case (Cons d tgt c src)
  let ?pt = "prod_list tgt" and ?ps = "prod_list src"
  from Cons.prems have pt: "0 < ?pt" by (cases "?pt") simp_all
  then have r: "i mod ?pt < ?pt" by simp
  have si: "source_index tgt src (i mod ?pt) < ?ps"
    using Cons.hyps(2) r by (rule source_index_less)
  show ?case
  proof (cases "c = d")
    case True
    let ?k = "i div ?pt"
    let ?blk = "\<lambda>j. take ?ps (drop (j * ?ps) xs)"
    let ?f = "\<lambda>j. stretch tgt src (?blk j)"
    have k: "?k < d"
      using Cons.prems(2) pt by (simp add: less_mult_imp_div_less mult.commute)
    have blen: "length (?blk j) = ?ps" if "j < d" for j
    proof -
      from that have "Suc j \<le> d" by simp
      then have "Suc j * ?ps \<le> d * ?ps" by (rule mult_le_mono1)
      then show ?thesis using Cons.prems(1) True by simp
    qed
    have flen: "\<forall>b\<in>set (map ?f [0..<d]). length b = ?pt"
      using Cons.hyps(2) blen by (auto intro: stretch_length)
    have "stretch (d # tgt) (c # src) xs ! i = concat (map ?f [0..<d]) ! i"
      using True by simp
    also have "\<dots> = (map ?f [0..<d] ! ?k) ! (i mod ?pt)"
      using flen Cons.prems(2) by (intro nth_concat_blocks) simp_all
    also have "\<dots> = ?f ?k ! (i mod ?pt)" using k by simp
    also have "\<dots> = ?blk ?k ! source_index tgt src (i mod ?pt)"
      using blen [OF k] r by (intro Cons.IH) simp_all
    also have "\<dots> = xs ! (?k * ?ps + source_index tgt src (i mod ?pt))"
    proof -
      have "?k * ?ps \<le> d * ?ps" using k by (intro mult_le_mono1) simp
      then have "?k * ?ps \<le> length xs" using Cons.prems(1) True by simp
      then show ?thesis using si by simp
    qed
    finally show ?thesis using True by simp
  next
    case False
    then have c: "c = 1" using Cons.hyps(1) by simp
    have len: "length (stretch tgt src xs) = ?pt"
      using Cons.hyps(2) Cons.prems(1) c by (intro stretch_length) simp_all
    have "stretch (d # tgt) (c # src) xs ! i = concat (replicate d (stretch tgt src xs)) ! i"
      using False by simp
    also have "\<dots> = (replicate d (stretch tgt src xs) ! (i div ?pt)) ! (i mod ?pt)"
      using len Cons.prems(2) by (intro nth_concat_blocks) simp_all
    also have "\<dots> = stretch tgt src xs ! (i mod ?pt)"
      using Cons.prems(2) pt by (simp add: less_mult_imp_div_less mult.commute)
    also have "\<dots> = xs ! source_index tgt src (i mod ?pt)"
      using Cons.prems(1) c r by (intro Cons.IH) simp_all
    finally show ?thesis using False by simp
  qed
qed

lemma broadcast_flat_nth:
  assumes "broadcast_shape (shape a) (shape b) = Some s" and "well_formed a" and "well_formed b"
    and "i < prod_list s"
  shows "broadcast_flat s a ! i
           = data a ! source_index s (replicate (length s - length (shape a)) 1 @ shape a) i"
    and "broadcast_flat s b ! i
           = data b ! source_index s (replicate (length s - length (shape b)) 1 @ shape b) i"
  unfolding broadcast_flat_def
  using broadcast_shape_compat [OF assms(1)] assms(2-4)
  by (simp_all add: stretch_nth well_formed_def)

lemma izip_two: "izip [A, B] = map (\<lambda>i. [A ! i, B ! i]) [0..<min (length A) (length B)]"
  by (simp add: izip_def min.commute)

lemma zip_by_index:
  "length A = n \<Longrightarrow> length B = n \<Longrightarrow>
     map (\<lambda>(x, y). Tuple [x, y]) (zip A B) = map (\<lambda>i. Tuple [A ! i, B ! i]) [0..<n]"
  by (simp add: list_eq_iff_nth_eq)

text \<open>The loop over pairs fills the whole buffer when every scalar operation succeeds.\<close>

lemma of_pairs_fills:
  fixes self :: "'u pyobj uarray"
  assumes nd: "shape self \<noteq> []"
    and ce: "ua_create_empty self (Some hin) None (\<lambda>i. PyNone :: 'u pyobj)
               = Inr (np_empty s DObject (\<lambda>i. PyNone), map (\<lambda>i. Tuple [A ! i, B ! i]) [0..<prod_list s])"
    and ok: "\<forall>i<prod_list s. \<exists>v. f (A ! i) (B ! i) = Inr v"
  shows "\<exists>r. of_pairs f0 f self hin = Inr (RUncertainArray r) \<and> shape r = s \<and>
             length (data r) = prod_list s \<and> (\<forall>i<prod_list s. f (A ! i) (B ! i) = Inr (data r ! i))"
proof -
  let ?items = "map (\<lambda>i. Tuple [A ! i, B ! i]) [0..<prod_list s]"
  let ?buf = "np_empty s DObject (\<lambda>i. PyNone :: 'u pyobj)"
  have all: "\<forall>x\<in>set ?items. \<exists>v. on_pair f x = Inr v"
    using ok by (auto simp: on_pair_def)
  have len: "0 + length ?items \<le> length (data ?buf)"
    by (simp add: np_empty_def)
  have loop: "enumerate_itemset (on_pair f) 0 ?items ?buf
      = Inr (?buf\<lparr>data := map (\<lambda>x. projr (on_pair f x)) ?items\<rparr>)"
    using enumerate_itemset_all [OF all len] by (simp add: np_empty_def)
  let ?r = "UncertainArray (?buf\<lparr>data := map (\<lambda>x. projr (on_pair f x)) ?items\<rparr>) None"
  have "of_pairs f0 f self hin = Inr (RUncertainArray ?r)"
    using nd by (simp add: of_pairs_def ce loop)
  moreover have "shape ?r = s"
    by (simp add: UncertainArray_def view_UncertainArray_def np_empty_def)
  moreover have "length (data ?r) = prod_list s"
    by (simp add: UncertainArray_def view_UncertainArray_def)
  moreover have "\<forall>i<prod_list s. f (A ! i) (B ! i) = Inr (data ?r ! i)"
  proof (intro allI impI)
    fix i assume i: "i < prod_list s"
    with ok obtain v where "f (A ! i) (B ! i) = Inr v" by blast
    then show "f (A ! i) (B ! i) = Inr (data ?r ! i)"
      using i by (simp add: UncertainArray_def view_UncertainArray_def on_pair_def)
  qed
  ultimately show ?thesis by blast
qed

lemma as_ndarray_simps [simp]:
  "shape (as_ndarray a) = shape a" "dtype (as_ndarray a) = dtype a" "data (as_ndarray a) = data a"
  by (simp_all add: as_ndarray_def)

lemma array_ufunc_two_arrays:
  assumes "handler env uf = Some attr"
  shows "ua_array_ufunc env self uf [Array a, Array b] =
     (if shape a \<noteq> shape b then
        (case np_broadcast a b of
           Inl e \<Rightarrow> (Inl e, self\<lparr>broadcasted_shape := None\<rparr>)
         | Inr (shp, iters) \<Rightarrow>
             (attr (self\<lparr>broadcasted_shape := Some shp\<rparr>) (Iters iters), self\<lparr>broadcasted_shape := Some shp\<rparr>))
      else (attr (self\<lparr>broadcasted_shape := None\<rparr>) (Arrays [a, b]), self\<lparr>broadcasted_shape := None\<rparr>))"
  using assms
  by (simp add: ua_array_ufunc_def coerce_def is_ndarray_def Let_def split: sum.splits prod.splits)

text \<open>A handler of the shape \<open>of_pairs\<close>, dispatched on \<open>self\<close> and \<open>b\<close>: when \<open>self\<close> has
  a positive dimension and the body of the loop succeeds on every pair of broadcast
  elements, the result is the array of what the body returns.\<close>

lemma of_pairs_dispatch:
  fixes self b :: "'u pyobj uarray" and env :: "('u, 's) env"
  assumes h: "handler env uf = Some (of_pairs f0 f)"
    and wa: "well_formed self" and wb: "well_formed b" and nd: "shape self \<noteq> []"
    and bs: "broadcast_shape (shape self) (shape b) = Some s"
    and ok: "\<forall>i<prod_list s. \<exists>v. f (broadcast_flat s self ! i) (broadcast_flat s b ! i) = Inr v"
  shows "\<exists>r. fst (ua_array_ufunc env self uf [Array (as_ndarray self), Array (as_ndarray b)])
                 = Inr (RUncertainArray r) \<and>
             shape r = s \<and> dtype r = DObject \<and> length (data r) = prod_list s \<and>
             (\<forall>i<prod_list s. f (broadcast_flat s self ! i) (broadcast_flat s b ! i) = Inr (data r ! i))"
proof -
  let ?a = "as_ndarray self" and ?b = "as_ndarray b"
  let ?inputs = "[Array ?a, Array ?b] :: ('u, 's) operand list"
  let ?A = "broadcast_flat s self" and ?B = "broadcast_flat s b"
  have lenA: "length ?A = prod_list s"
    using broadcast_shape_compat(1) [OF bs] wa by (rule broadcast_flat_length)
  have lenB: "length ?B = prod_list s"
    using broadcast_shape_compat(2) [OF bs] wb by (rule broadcast_flat_length)
  have flat: "broadcast_flat s ?a = ?A" "broadcast_flat s ?b = ?B"
    by (simp_all add: broadcast_flat_def)
  have fills: "\<exists>r. of_pairs f0 f self' hin = Inr (RUncertainArray r) \<and>
             shape r = s \<and> dtype r = DObject \<and> length (data r) = prod_list s \<and>
             (\<forall>i<prod_list s. f (?A ! i) (?B ! i) = Inr (data r ! i))"
    if nd': "shape self' \<noteq> []"
      and ce: "ua_create_empty self' (Some hin) None (\<lambda>i. PyNone :: 'u pyobj)
        = Inr (np_empty s DObject (\<lambda>i. PyNone), map (\<lambda>i. Tuple [?A ! i, ?B ! i]) [0..<prod_list s])"
    for self' :: "'u pyobj uarray" and hin
  proof -
    from of_pairs_fills [OF nd' ce ok, of f0] obtain r where
      r: "of_pairs f0 f self' hin = Inr (RUncertainArray r)" "shape r = s"
         "length (data r) = prod_list s" "\<forall>i<prod_list s. f (?A ! i) (?B ! i) = Inr (data r ! i)"
      by blast
    from r(1) obtain arr iterator arr' where
      c: "ua_create_empty self' (Some hin) None (\<lambda>i. PyNone :: 'u pyobj) = Inr (arr, iterator)"
      and l: "enumerate_itemset (on_pair f) 0 iterator arr = Inr arr'"
      and e: "RUncertainArray r = RUncertainArray (UncertainArray arr' None)"
      using nd' by (auto simp: of_pairs_def and_then_eq_Inr)
    from create_empty_buffer [OF c] enumerate_itemset_frame [OF l] e
    have "dtype r = DObject" by (simp add: UncertainArray_def view_UncertainArray_def)
    with r show ?thesis by blast
  qed
  show ?thesis
  proof (cases "shape self = shape b")
    case True
    then have s: "s = shape self" using bs by (simp add: broadcast_shape_same)
    have A: "?A = data self"
      unfolding s using wa by (rule broadcast_flat_same)
    have B: "?B = data b"
      unfolding s True using wb by (rule broadcast_flat_same)
    let ?self = "self\<lparr>broadcasted_shape := None\<rparr>"
    have d: "fst (ua_array_ufunc env self uf ?inputs) = of_pairs f0 f ?self (Arrays [?a, ?b])"
      using True by (simp add: array_ufunc_two_arrays [OF h])
    have "length (data self) = prod_list s" "length (data b) = prod_list s"
      using lenA lenB A B by simp_all
    then have ce: "ua_create_empty ?self (Some (Arrays [?a, ?b])) None (\<lambda>i. PyNone :: 'u pyobj)
        = Inr (np_empty s DObject (\<lambda>i. PyNone), map (\<lambda>i. Tuple [?A ! i, ?B ! i]) [0..<prod_list s])"
      unfolding A B by (simp add: ua_create_empty_def s zip_by_index)
    have "shape ?self \<noteq> []" using nd by simp
    from fills [OF this ce] show ?thesis by (simp add: d)
  next
    case False
    let ?self = "self\<lparr>broadcasted_shape := Some s\<rparr>"
    have nb: "np_broadcast ?a ?b = Inr (s, [?A, ?B])"
      using bs by (simp add: np_broadcast_def flat)
    have d: "fst (ua_array_ufunc env self uf ?inputs) = of_pairs f0 f ?self (Iters [?A, ?B])"
      using False by (simp add: array_ufunc_two_arrays [OF h] nb)
    have ce: "ua_create_empty ?self (Some (Iters [?A, ?B])) None (\<lambda>i. PyNone :: 'u pyobj)
        = Inr (np_empty s DObject (\<lambda>i. PyNone), map (\<lambda>i. Tuple [?A ! i, ?B ! i]) [0..<prod_list s])"
      by (simp add: ua_create_empty_def izip_two lenA lenB comp_def)
    have "shape ?self \<noteq> []" using nd by simp
    from fills [OF this ce] show ?thesis by (simp add: d)
  qed
qed

lemma handler_of_pairs:
  "handler env U_maximum = Some (of_pairs (pick env (op_gt env)) (pick_nan env (op_gt env)))"
  "handler env U_minimum = Some (of_pairs (pick env (op_lt env)) (pick_nan env (op_lt env)))"
  "handler env U_logical_and = Some (of_pairs (py_and env) (py_and env))"
  "handler env U_logical_or = Some (of_pairs (py_or env) (py_or env))"
  by (simp_all, (intro ext, simp add: ua_maximum_def ua_minimum_def ua_logical_and_def ua_logical_or_def)+)

lemma pick_nan_cases:
  assumes "pick_nan env rel a b = Inr v"
  shows "(number_isnan env a = Inr True \<longrightarrow> v = a) \<and>
         (number_isnan env a = Inr False \<and> number_isnan env b = Inr True \<longrightarrow> v = b) \<and>
         (number_isnan env a = Inr False \<and> number_isnan env b = Inr False \<longrightarrow> pick env rel a b = Inr v)"
  using assms by (auto simp: pick_nan_def and_then_eq_Inr split: if_splits)

lemma py_and_cases:
  "truth env a = Inr t \<Longrightarrow> py_and env a b = Inr (if t then b else a)"
  "truth env a = Inr t \<Longrightarrow> py_or env a b = Inr (if t then a else b)"
  by (simp_all add: py_and_def py_or_def)

lemma and_or_dispatch:
  fixes self b :: "'u pyobj uarray" and env :: "('u, 's) env"
  assumes wa: "well_formed self" and wb: "well_formed b" and nd: "shape self \<noteq> []"
    and bs: "broadcast_shape (shape self) (shape b) = Some s"
    and ok: "\<forall>i<prod_list s. \<exists>t. truth env (broadcast_flat s self ! i) = Inr t"
  shows "\<exists>u. fst (ua_array_ufunc env self U_logical_and [Array (as_ndarray self), Array (as_ndarray b)])
                 = Inr (RUncertainArray u) \<and>
             shape u = s \<and> dtype u = DObject \<and> length (data u) = prod_list s \<and>
             (\<forall>i<prod_list s.
                (truth env (broadcast_flat s self ! i) = Inr True \<longrightarrow> data u ! i = broadcast_flat s b ! i) \<and>
                (truth env (broadcast_flat s self ! i) = Inr False \<longrightarrow> data u ! i = broadcast_flat s self ! i))"
    and "\<exists>u. fst (ua_array_ufunc env self U_logical_or [Array (as_ndarray self), Array (as_ndarray b)])
                 = Inr (RUncertainArray u) \<and>
             shape u = s \<and> dtype u = DObject \<and> length (data u) = prod_list s \<and>
             (\<forall>i<prod_list s.
                (truth env (broadcast_flat s self ! i) = Inr True \<longrightarrow> data u ! i = broadcast_flat s self ! i) \<and>
                (truth env (broadcast_flat s self ! i) = Inr False \<longrightarrow> data u ! i = broadcast_flat s b ! i))"
proof -
  have ok_and: "\<forall>i<prod_list s. \<exists>v. py_and env (broadcast_flat s self ! i) (broadcast_flat s b ! i) = Inr v"
    using ok py_and_cases(1) by blast
  have ok_or: "\<forall>i<prod_list s. \<exists>v. py_or env (broadcast_flat s self ! i) (broadcast_flat s b ! i) = Inr v"
    using ok py_and_cases(2) by blast
  from of_pairs_dispatch [OF handler_of_pairs(3) wa wb nd bs ok_and] obtain u where
    u: "fst (ua_array_ufunc env self U_logical_and [Array (as_ndarray self), Array (as_ndarray b)]) = Inr (RUncertainArray u)"
       "shape u = s" "dtype u = DObject" "length (data u) = prod_list s"
       "\<forall>i<prod_list s. py_and env (broadcast_flat s self ! i) (broadcast_flat s b ! i) = Inr (data u ! i)"
    by blast
  have "\<forall>i<prod_list s.
                (truth env (broadcast_flat s self ! i) = Inr True \<longrightarrow> data u ! i = broadcast_flat s b ! i) \<and>
                (truth env (broadcast_flat s self ! i) = Inr False \<longrightarrow> data u ! i = broadcast_flat s self ! i)"
    using u(5) by (auto simp: py_and_def)
  with u(1-4) show "\<exists>u. fst (ua_array_ufunc env self U_logical_and [Array (as_ndarray self), Array (as_ndarray b)])
                 = Inr (RUncertainArray u) \<and>
             shape u = s \<and> dtype u = DObject \<and> length (data u) = prod_list s \<and>
             (\<forall>i<prod_list s.
                (truth env (broadcast_flat s self ! i) = Inr True \<longrightarrow> data u ! i = broadcast_flat s b ! i) \<and>
                (truth env (broadcast_flat s self ! i) = Inr False \<longrightarrow> data u ! i = broadcast_flat s self ! i))"
    by blast
  from of_pairs_dispatch [OF handler_of_pairs(4) wa wb nd bs ok_or] obtain w where
    w: "fst (ua_array_ufunc env self U_logical_or [Array (as_ndarray self), Array (as_ndarray b)]) = Inr (RUncertainArray w)"
       "shape w = s" "dtype w = DObject" "length (data w) = prod_list s"
       "\<forall>i<prod_list s. py_or env (broadcast_flat s self ! i) (broadcast_flat s b ! i) = Inr (data w ! i)"
    by blast
  have "\<forall>i<prod_list s.
                (truth env (broadcast_flat s self ! i) = Inr True \<longrightarrow> data w ! i = broadcast_flat s self ! i) \<and>
                (truth env (broadcast_flat s self ! i) = Inr False \<longrightarrow> data w ! i = broadcast_flat s b ! i)"
    using w(5) by (auto simp: py_or_def)
  with w(1-4) show "\<exists>u. fst (ua_array_ufunc env self U_logical_or [Array (as_ndarray self), Array (as_ndarray b)])
                 = Inr (RUncertainArray u) \<and>
             shape u = s \<and> dtype u = DObject \<and> length (data u) = prod_list s \<and>
             (\<forall>i<prod_list s.
                (truth env (broadcast_flat s self ! i) = Inr True \<longrightarrow> data u ! i = broadcast_flat s self ! i) \<and>
                (truth env (broadcast_flat s self ! i) = Inr False \<longrightarrow> data u ! i = broadcast_flat s b ! i))"
    by blast
qed

text \<open>What the dispatch of \<open>logical_xor\<close> raises, case by case.\<close>

lemma logical_xor_two:
  assumes "length inputs = 2"
  shows "fst (ua_array_ufunc env self U_logical_xor inputs) =
     (case coerce env inputs of
        Inl e \<Rightarrow> Inl e
      | Inr ins \<Rightarrow>
          (case (ins ! 0, ins ! 1) of
             (Array a, Array b) \<Rightarrow>
               (if broadcast_shape (shape a) (shape b) = None then Inl ValueError else Inl TypeError)
           | _ \<Rightarrow> Inl AttributeError))"
proof (cases "coerce env inputs")
  case (Inl e)
  then show ?thesis using assms by (simp add: ua_array_ufunc_def)
next
  case (Inr ins)
  show ?thesis
  proof (cases "ins ! 0")
    case a: (Array a)
    show ?thesis
    proof (cases "ins ! 1")
      case b: (Array b)
      show ?thesis
      proof (cases "shape a = shape b")
        case True
        then show ?thesis
          using assms Inr a b
          by (simp add: ua_array_ufunc_def Let_def ua_logical_xor_def broadcast_shape_same)
      next
        case False
        then show ?thesis
          using assms Inr a b
          by (cases "broadcast_shape (shape a) (shape b)")
             (simp_all add: ua_array_ufunc_def Let_def ua_logical_xor_def np_broadcast_def)
      qed
    qed (use assms Inr a in \<open>simp_all add: ua_array_ufunc_def Let_def\<close>)
  qed (use assms Inr in \<open>simp_all add: ua_array_ufunc_def Let_def\<close>)
qed

lemma coerce_cases:
  "coerce env [Array a, Array b] = Inr [Array a, Array b]"
  "coerce env [Array a, Scalar x] = Inr [Array a, Array (np_full (shape a) x)]"
  "coerce env [Scalar x, Array a] = Inr [Array (np_full (shape a) x), Array a]"
  "coerce env [Array a, Foreign s]
     = and_then (np_asarray env (Other s) DObject) (\<lambda>c. Inr [Array a, Array c])"
  "coerce env [Foreign s, Array a]
     = and_then (np_asarray env (Other s) DObject) (\<lambda>c. Inr [Array c, Array a])"
  by (simp_all add: coerce_def is_ndarray_def operand_shape_def)

subsection \<open>Addition with broadcasting\<close>

text \<open>C1, as the code has it. Let \<open>self\<close> and \<open>b\<close> be two UncertainArrays whose shapes
  broadcast to \<open>s\<close>, and let the scalar sum be defined on each pair of their broadcast
  elements. When \<open>self\<close> has a positive dimension, \<open>self + b\<close> dispatched through the
  engine returns a new UncertainArray of shape \<open>s\<close> whose flat element \<open>i\<close> is the scalar
  sum of the broadcast elements \<open>i\<close> of \<open>self\<close> and of \<open>b\<close>. When both are
  0-dimensional, it returns the scalar sum of their sole elements, bare.\<close>

theorem add_broadcast:
  fixes self b :: "'u pyobj uarray" and env :: "('u, 's) env"
  assumes wa: "well_formed self" and wb: "well_formed b"
    and bs: "broadcast_shape (shape self) (shape b) = Some s"
    and ok: "\<forall>i<prod_list s. \<exists>v. op_add env (broadcast_flat s self ! i) (broadcast_flat s b ! i) = Inr v"
  shows "(shape self \<noteq> [] \<longrightarrow>
           (\<exists>r. fst (ua_array_ufunc env self U_add [Array (as_ndarray self), Array (as_ndarray b)])
                   = Inr (RUncertainArray r) \<and>
                 shape r = s \<and> length (data r) = prod_list s \<and>
                 (\<forall>i<prod_list s. op_add env (broadcast_flat s self ! i) (broadcast_flat s b ! i)
                                    = Inr (data r ! i)))) \<and>
         (shape self = [] \<and> shape b = [] \<longrightarrow>
           (\<exists>v. fst (ua_array_ufunc env self U_add [Array (as_ndarray self), Array (as_ndarray b)])
                   = Inr (RScalar v) \<and>
                 op_add env (data self ! 0) (data b ! 0) = Inr v))"
proof -
  let ?a = "as_ndarray self" and ?b = "as_ndarray b"
  let ?inputs = "[Array ?a, Array ?b] :: ('u, 's) operand list"
  let ?A = "broadcast_flat s self" and ?B = "broadcast_flat s b"
  have h: "handler env U_add = Some (ua_add env)" by simp
  have lenA: "length ?A = prod_list s"
    using broadcast_shape_compat(1) [OF bs] wa by (rule broadcast_flat_length)
  have lenB: "length ?B = prod_list s"
    using broadcast_shape_compat(2) [OF bs] wb by (rule broadcast_flat_length)
  have flat: "broadcast_flat s ?a = ?A" "broadcast_flat s ?b = ?B"
    by (simp_all add: broadcast_flat_def)
  have positive: "\<exists>r. fst (ua_array_ufunc env self U_add ?inputs) = Inr (RUncertainArray r) \<and>
                 shape r = s \<and> length (data r) = prod_list s \<and>
                 (\<forall>i<prod_list s. op_add env (?A ! i) (?B ! i) = Inr (data r ! i))"
    if nd: "shape self \<noteq> []"
  proof (cases "shape self = shape b")
    case True
    then have s: "s = shape self" using bs by (simp add: broadcast_shape_same)
    have A: "?A = data self"
      unfolding s using wa by (rule broadcast_flat_same)
    have B: "?B = data b"
      unfolding s True using wb by (rule broadcast_flat_same)
    let ?self = "self\<lparr>broadcasted_shape := None\<rparr>"
    have d: "fst (ua_array_ufunc env self U_add ?inputs) = ua_add env ?self (Arrays [?a, ?b])"
      using True by (simp add: array_ufunc_two_arrays [OF h])
    have "length (data self) = prod_list s" "length (data b) = prod_list s"
      using lenA lenB A B by simp_all
    then have ce: "ua_create_empty ?self (Some (Arrays [?a, ?b])) None (\<lambda>i. PyNone :: 'u pyobj)
        = Inr (np_empty s DObject (\<lambda>i. PyNone), map (\<lambda>i. Tuple [?A ! i, ?B ! i]) [0..<prod_list s])"
      unfolding A B by (simp add: ua_create_empty_def s zip_by_index)
    have "shape ?self \<noteq> []" using nd by simp
    from of_pairs_fills [OF this ce ok, of "op_add env"] show ?thesis
      by (simp add: d ua_add_def)
  next
    case False
    let ?self = "self\<lparr>broadcasted_shape := Some s\<rparr>"
    have nb: "np_broadcast ?a ?b = Inr (s, [?A, ?B])"
      using bs by (simp add: np_broadcast_def flat)
    have d: "fst (ua_array_ufunc env self U_add ?inputs) = ua_add env ?self (Iters [?A, ?B])"
      using False by (simp add: array_ufunc_two_arrays [OF h] nb)
    have ce: "ua_create_empty ?self (Some (Iters [?A, ?B])) None (\<lambda>i. PyNone :: 'u pyobj)
        = Inr (np_empty s DObject (\<lambda>i. PyNone), map (\<lambda>i. Tuple [?A ! i, ?B ! i]) [0..<prod_list s])"
      by (simp add: ua_create_empty_def izip_two lenA lenB comp_def)
    have "shape ?self \<noteq> []" using nd by simp
    from of_pairs_fills [OF this ce ok, of "op_add env"] show ?thesis
      by (simp add: d ua_add_def)
  qed
  have zero: "\<exists>v. fst (ua_array_ufunc env self U_add ?inputs) = Inr (RScalar v) \<and>
                 op_add env (data self ! 0) (data b ! 0) = Inr v"
    if z: "shape self = [] \<and> shape b = []"
  proof -
    from z have s: "s = []" using bs by (simp add: broadcast_shape_def)
    from z wa wb obtain x y where x: "data self = [x]" and y: "data b = [y]"
      by (auto simp: well_formed_def length_Suc_conv)
    have A: "?A = [x]" and B: "?B = [y]"
      using z by (simp_all add: broadcast_flat_def s x y)
    from ok A B s obtain v where v: "op_add env x y = Inr v" by auto
    let ?self = "self\<lparr>broadcasted_shape := None\<rparr>"
    have d: "fst (ua_array_ufunc env self U_add ?inputs) = ua_add env ?self (Arrays [?a, ?b])"
      using z by (simp add: array_ufunc_two_arrays [OF h])
    have "ua_add env ?self (Arrays [?a, ?b]) = Inr (RScalar v)"
      using z by (simp add: ua_add_def of_pairs_def input_item0_def item0_def x y v)
    then show ?thesis using d v x y by simp
  qed
  from positive zero show ?thesis by blast
qed

text \<open>A run: the shapes \<open>[3]\<close> and \<open>[2, 1]\<close> broadcast to \<open>[2, 3]\<close>; the sum has 6
  elements, the last of which is \<open>3 + 20\<close>.\<close>

theorem add_broadcast_witness:
  "\<exists>r. fst (ua_array_ufunc (plain :: (unit, unit) env) (uarray1 [PyInt 1, PyInt 2, PyInt 3]) U_add
          [Array (as_ndarray (uarray1 [PyInt 1, PyInt 2, PyInt 3])),
           Array (as_ndarray (UncertainArray \<lparr>shape = [2, 1], dtype = DObject, data = [PyInt 10, PyInt 20]\<rparr> None))])
        = Inr (RUncertainArray r) \<and> shape r = [2, 3] \<and> length (data r) = 6 \<and>
        Inr (data r ! 5) = (Inr (PyInt 23) :: error + unit pyobj)"
proof -
  let ?a = "uarray1 [PyInt 1, PyInt 2, PyInt 3] :: unit pyobj uarray"
  let ?b = "UncertainArray \<lparr>shape = [2, 1], dtype = DObject, data = [PyInt 10, PyInt 20]\<rparr> None :: unit pyobj uarray"
  let ?env = "plain :: (unit, unit) env"
  have wa: "well_formed ?a" and wb: "well_formed ?b"
    by (simp_all add: well_formed_def uarray1_def UncertainArray_def view_UncertainArray_def)
  have bs: "broadcast_shape (shape ?a) (shape ?b) = Some [2, 3]"
    by code_simp
  have A: "broadcast_flat [2, 3] ?a = [PyInt 1, PyInt 2, PyInt 3, PyInt 1, PyInt 2, PyInt 3]"
    by code_simp
  have B: "broadcast_flat [2, 3] ?b = [PyInt 10, PyInt 10, PyInt 10, PyInt 20, PyInt 20, PyInt 20]"
    by code_simp
  have six: "prod_list [2, 3] = (6::nat)" by simp
  have ok: "\<forall>i<prod_list [2, 3]. \<exists>v. op_add ?env (broadcast_flat [2, 3] ?a ! i) (broadcast_flat [2, 3] ?b ! i) = Inr v"
    unfolding A B six
    by (simp add: eval_nat_numeral All_less_Suc plain_def plain_add_def)
  have nd: "shape ?a \<noteq> []"
    by (simp add: uarray1_def UncertainArray_def view_UncertainArray_def)
  have last: "op_add ?env (broadcast_flat [2, 3] ?a ! 5) (broadcast_flat [2, 3] ?b ! 5) = Inr (PyInt 23)"
    unfolding A B by (simp add: plain_def plain_add_def)
  from add_broadcast [OF wa wb bs ok] nd obtain r where
    r: "fst (ua_array_ufunc ?env ?a U_add [Array (as_ndarray ?a), Array (as_ndarray ?b)]) = Inr (RUncertainArray r)"
       "shape r = [2, 3]" "length (data r) = prod_list [2, 3]"
       "\<forall>i<prod_list [2, 3]. op_add ?env (broadcast_flat [2, 3] ?a ! i) (broadcast_flat [2, 3] ?b ! i) = Inr (data r ! i)"
    by blast
  from r(4) have "op_add ?env (broadcast_flat [2, 3] ?a ! 5) (broadcast_flat [2, 3] ?b ! 5) = Inr (data r ! 5)"
    by (simp add: six)
  with last have "Inr (data r ! 5) = (Inr (PyInt 23) :: error + unit pyobj)" by simp
  with r(1,2,3) six show ?thesis by auto
qed

text \<open>The claim as the spec states it fails for two 0-dimensional arrays: what is returned
  is the bare sum, not an UncertainArray.\<close>

theorem add_0d_scalar_counterexample:
  "fst (ua_array_ufunc (plain :: (unit, unit) env) (uarray0 (PyInt 4)) U_add
          [Array (as_ndarray (uarray0 (PyInt 4))), Array (as_ndarray (uarray0 (PyInt 5)))])
     = Inr (RScalar (PyInt 9))"
  by code_simp

text \<open>A 0-dimensional \<open>self\<close> added to an array of positive dimension: the inputs are
  replaced by flat iterators, on which the 0-dimensional branch of \<^verbatim>\<open>_add\<close> calls
  \<^verbatim>\<open>item\<close>.\<close>

lemma add_0d_to_1d_raises:
  "fst (ua_array_ufunc (plain :: (unit, unit) env) (uarray0 (PyInt 4)) U_add
          [Array (as_ndarray (uarray0 (PyInt 4))), Array (as_ndarray (uarray1 [PyInt 1, PyInt 2, PyInt 3]))])
     = Inl AttributeError"
  by code_simp

subsection \<open>Arrays of dimension 0\<close>

text \<open>An operation with the 0-dimensional branch returns, on a 0-dimensional array,
  what the scalar operation returns on its sole element.\<close>

lemma of_self_0d:
  assumes "shape self = []" and "data self = [x]"
  shows "of_self env dtype_arg f self = and_then (f x) (\<lambda>v. Inr (RScalar v))"
  using assms by (simp add: of_self_def item0_def)

lemma predicate_0d:
  assumes "shape self = []" and "data self = [x]"
  shows "predicate env p0 p self inputs = and_then (p0 x) (\<lambda>b. Inr (RScalar (PyBool b)))"
  using assms by (simp add: predicate_def item0_def)

lemma zero_dimensional_short_circuit:
  assumes "shape self = []" and "data self = [x]"
  shows "ua_negative env self ignore = and_then (op_neg env x) (\<lambda>v. Inr (RScalar v))"
    and "ua_positive env self ignore = and_then (op_pos env x) (\<lambda>v. Inr (RScalar v))"
    and "ua_conjugate env self ignore = and_then (meth_conjugate env x) (\<lambda>v. Inr (RScalar v))"
    and "ua_exp env self ignore = and_then (core_apply env Exp x) (\<lambda>v. Inr (RScalar v))"
    and "ua_value env self dtype_arg = and_then (core_value env x) (\<lambda>v. Inr (RScalar v))"
    and "ua_uncertainty env self dtype_arg = and_then (core_uncertainty env x) (\<lambda>v. Inr (RScalar v))"
    and "ua_real env self = and_then (attr_real env x) (\<lambda>v. Inr (RScalar v))"
    and "ua_isnan env self inputs = and_then (number_isnan env x) (\<lambda>b. Inr (RScalar (PyBool b)))"
    and "ua_isinf env self inputs = and_then (number_isinf env x) (\<lambda>b. Inr (RScalar (PyBool b)))"
    and "ua_isfinite env self inputs = and_then (number_isinf env x) (\<lambda>b. Inr (RScalar (PyBool b)))"
  using assms
  by (simp_all add: ua_negative_def ua_positive_def ua_conjugate_def ua_exp_def ua_core_def ua_value_def
      ua_uncertainty_def ua_real_def ua_isnan_def ua_isinf_def ua_isfinite_def of_self_0d predicate_0d)

text \<open>C2 holds of the handlers that begin with the 0-dimensional branch and return in it
  what the scalar operation returns; two handlers do otherwise. On the 0-dimensional array
  of the float 1.0, \<open>isfinite\<close> returns \<^verbatim>\<open>False\<close>, the answer of \<^verbatim>\<open>_isinf\<close>, while the
  finiteness test of the loop says \<^verbatim>\<open>True\<close> of the same element, alone or in a
  1-dimensional array. On a 0-dimensional array \<open>logical_not\<close> allocates a buffer and
  returns it, a 0-dimensional boolean ndarray.\<close>

theorem isfinite_0d_is_isinf:
  "fst (ua_array_ufunc (plain :: (unit, unit) env) (uarray0 (PyFloat (Finite 1))) U_isfinite
          [Array (as_ndarray (uarray0 (PyFloat (Finite 1))))])
     = Inr (RScalar (PyBool False)) \<and>
   number_isfinite (plain :: (unit, unit) env) (PyFloat (Finite 1)) = Inr True \<and>
   fst (ua_array_ufunc (plain :: (unit, unit) env) (uarray1 [PyFloat (Finite 1)]) U_isfinite
          [Array (as_ndarray (uarray1 [PyFloat (Finite 1)]))])
     = Inr (RNdarrayBool \<lparr>shape = [1], dtype = DBool, data = [True]\<rparr>) \<and>
   fst (ua_array_ufunc (plain :: (unit, unit) env) (uarray0 (PyInt 1)) U_logical_not
          [Array (as_ndarray (uarray0 (PyInt 1)))])
     = Inr (RNdarrayBool \<lparr>shape = [], dtype = DBool, data = [False]\<rparr>)"
  by code_simp

subsection \<open>Maximum and minimum with NaN\<close>

text \<open>The 0-dimensional branch of \<^verbatim>\<open>_maximum\<close> and \<^verbatim>\<open>_minimum\<close> has no test for NaN: it
  returns \<^verbatim>\<open>a if a > b else b\<close> (with \<^verbatim>\<open><\<close> for the minimum) of the two sole elements.\<close>

lemma maximum_minimum_0d:
  assumes "shape self = []" and "data a = [x]" and "data b = [y]"
  shows "ua_maximum env self (Arrays [a, b]) = and_then (pick env (op_gt env) x y) (\<lambda>v. Inr (RScalar v))"
    and "ua_minimum env self (Arrays [a, b]) = and_then (pick env (op_lt env) x y) (\<lambda>v. Inr (RScalar v))"
  using assms by (simp_all add: ua_maximum_def ua_minimum_def of_pairs_def input_item0_def item0_def)

text \<open>C3, as the code has it. In the elementwise maximum and minimum of two
  UncertainArrays, the first of positive dimension, a NaN operand always wins: where the
  broadcast element of the first array is NaN, the element of the result is that
  element; where it is not and the broadcast element of the second array is NaN, the
  element of the result is that one; only where neither is NaN are the two compared.
  (The loop must succeed on every pair, which it does where a NaN is found.) For the
  inputs \<open>[1, NaN]\<close> and \<open>[NaN, 2]\<close>, element 0 and element 1 of the result are both NaN,
  for \<open>maximum\<close> and for \<open>minimum\<close>.\<close>

theorem maximum_minimum_nan_wins:
  fixes self b :: "'u pyobj uarray" and env :: "('u, 's) env"
  assumes wa: "well_formed self" and wb: "well_formed b" and nd: "shape self \<noteq> []"
    and bs: "broadcast_shape (shape self) (shape b) = Some s"
  shows
   "((\<forall>i<prod_list s. \<exists>v. pick_nan env (op_gt env) (broadcast_flat s self ! i) (broadcast_flat s b ! i) = Inr v) \<longrightarrow>
       (\<exists>r. fst (ua_array_ufunc env self U_maximum [Array (as_ndarray self), Array (as_ndarray b)])
               = Inr (RUncertainArray r) \<and> shape r = s \<and> length (data r) = prod_list s \<and>
          (\<forall>i<prod_list s.
             (number_isnan env (broadcast_flat s self ! i) = Inr True \<longrightarrow>
                data r ! i = broadcast_flat s self ! i) \<and>
             (number_isnan env (broadcast_flat s self ! i) = Inr False \<and>
              number_isnan env (broadcast_flat s b ! i) = Inr True \<longrightarrow>
                data r ! i = broadcast_flat s b ! i) \<and>
             (number_isnan env (broadcast_flat s self ! i) = Inr False \<and>
              number_isnan env (broadcast_flat s b ! i) = Inr False \<longrightarrow>
                pick env (op_gt env) (broadcast_flat s self ! i) (broadcast_flat s b ! i) = Inr (data r ! i))))) \<and>
    ((\<forall>i<prod_list s. \<exists>v. pick_nan env (op_lt env) (broadcast_flat s self ! i) (broadcast_flat s b ! i) = Inr v) \<longrightarrow>
       (\<exists>r. fst (ua_array_ufunc env self U_minimum [Array (as_ndarray self), Array (as_ndarray b)])
               = Inr (RUncertainArray r) \<and> shape r = s \<and> length (data r) = prod_list s \<and>
          (\<forall>i<prod_list s.
             (number_isnan env (broadcast_flat s self ! i) = Inr True \<longrightarrow>
                data r ! i = broadcast_flat s self ! i) \<and>
             (number_isnan env (broadcast_flat s self ! i) = Inr False \<and>
              number_isnan env (broadcast_flat s b ! i) = Inr True \<longrightarrow>
                data r ! i = broadcast_flat s b ! i) \<and>
             (number_isnan env (broadcast_flat s self ! i) = Inr False \<and>
              number_isnan env (broadcast_flat s b ! i) = Inr False \<longrightarrow>
                pick env (op_lt env) (broadcast_flat s self ! i) (broadcast_flat s b ! i) = Inr (data r ! i))))) \<and>
    fst (ua_array_ufunc (plain :: (unit, unit) env) (uarray1 [PyInt 1, PyFloat NaN]) U_maximum
          [Array (as_ndarray (uarray1 [PyInt 1, PyFloat NaN])), Array (as_ndarray (uarray1 [PyFloat NaN, PyInt 2]))])
      = Inr (RUncertainArray (uarray1 [PyFloat NaN, PyFloat NaN])) \<and>
    fst (ua_array_ufunc (plain :: (unit, unit) env) (uarray1 [PyInt 1, PyFloat NaN]) U_minimum
          [Array (as_ndarray (uarray1 [PyInt 1, PyFloat NaN])), Array (as_ndarray (uarray1 [PyFloat NaN, PyInt 2]))])
      = Inr (RUncertainArray (uarray1 [PyFloat NaN, PyFloat NaN]))"
proof -
  have loop: "\<exists>r. fst (ua_array_ufunc env self uf [Array (as_ndarray self), Array (as_ndarray b)])
               = Inr (RUncertainArray r) \<and> shape r = s \<and> length (data r) = prod_list s \<and>
          (\<forall>i<prod_list s.
             (number_isnan env (broadcast_flat s self ! i) = Inr True \<longrightarrow>
                data r ! i = broadcast_flat s self ! i) \<and>
             (number_isnan env (broadcast_flat s self ! i) = Inr False \<and>
              number_isnan env (broadcast_flat s b ! i) = Inr True \<longrightarrow>
                data r ! i = broadcast_flat s b ! i) \<and>
             (number_isnan env (broadcast_flat s self ! i) = Inr False \<and>
              number_isnan env (broadcast_flat s b ! i) = Inr False \<longrightarrow>
                pick env rel (broadcast_flat s self ! i) (broadcast_flat s b ! i) = Inr (data r ! i)))"
    if h: "handler env uf = Some (of_pairs (pick env rel) (pick_nan env rel))"
      and ok: "\<forall>i<prod_list s. \<exists>v. pick_nan env rel (broadcast_flat s self ! i) (broadcast_flat s b ! i) = Inr v"
    for uf rel
  proof -
    from of_pairs_dispatch [OF h wa wb nd bs ok] obtain r where
      r: "fst (ua_array_ufunc env self uf [Array (as_ndarray self), Array (as_ndarray b)]) = Inr (RUncertainArray r)"
         "shape r = s" "length (data r) = prod_list s"
         "\<forall>i<prod_list s. pick_nan env rel (broadcast_flat s self ! i) (broadcast_flat s b ! i) = Inr (data r ! i)"
      by blast
    from r(4) pick_nan_cases have "\<forall>i<prod_list s.
             (number_isnan env (broadcast_flat s self ! i) = Inr True \<longrightarrow>
                data r ! i = broadcast_flat s self ! i) \<and>
             (number_isnan env (broadcast_flat s self ! i) = Inr False \<and>
              number_isnan env (broadcast_flat s b ! i) = Inr True \<longrightarrow>
                data r ! i = broadcast_flat s b ! i) \<and>
             (number_isnan env (broadcast_flat s self ! i) = Inr False \<and>
              number_isnan env (broadcast_flat s b ! i) = Inr False \<longrightarrow>
                pick env rel (broadcast_flat s self ! i) (broadcast_flat s b ! i) = Inr (data r ! i))"
      by blast
    with r(1-3) show ?thesis by blast
  qed
  have inst_max: "fst (ua_array_ufunc (plain :: (unit, unit) env) (uarray1 [PyInt 1, PyFloat NaN]) U_maximum
          [Array (as_ndarray (uarray1 [PyInt 1, PyFloat NaN])), Array (as_ndarray (uarray1 [PyFloat NaN, PyInt 2]))])
      = Inr (RUncertainArray (uarray1 [PyFloat NaN, PyFloat NaN]))"
    by code_simp
  have inst_min: "fst (ua_array_ufunc (plain :: (unit, unit) env) (uarray1 [PyInt 1, PyFloat NaN]) U_minimum
          [Array (as_ndarray (uarray1 [PyInt 1, PyFloat NaN])), Array (as_ndarray (uarray1 [PyFloat NaN, PyInt 2]))])
      = Inr (RUncertainArray (uarray1 [PyFloat NaN, PyFloat NaN]))"
    by code_simp
  from loop [OF handler_of_pairs(1)] loop [OF handler_of_pairs(2)] inst_max inst_min
  show ?thesis by blast
qed

text \<open>A run of the general statement on \<open>[1, NaN]\<close> and \<open>[NaN, 2]\<close>.\<close>

theorem maximum_minimum_nan_wins_witness:
  "\<exists>r. fst (ua_array_ufunc (plain :: (unit, unit) env) (uarray1 [PyInt 1, PyFloat NaN]) U_maximum
          [Array (as_ndarray (uarray1 [PyInt 1, PyFloat NaN])), Array (as_ndarray (uarray1 [PyFloat NaN, PyInt 2]))])
        = Inr (RUncertainArray r) \<and> shape r = [2] \<and> data r ! 0 = PyFloat NaN \<and> data r ! 1 = PyFloat NaN"
proof -
  let ?a = "uarray1 [PyInt 1, PyFloat NaN] :: unit pyobj uarray"
  let ?b = "uarray1 [PyFloat NaN, PyInt 2] :: unit pyobj uarray"
  let ?env = "plain :: (unit, unit) env"
  have wa: "well_formed ?a" and wb: "well_formed ?b" and nd: "shape ?a \<noteq> []"
    by (simp_all add: well_formed_def uarray1_def UncertainArray_def view_UncertainArray_def)
  have bs: "broadcast_shape (shape ?a) (shape ?b) = Some [2]"
    by code_simp
  have A: "broadcast_flat [2] ?a = [PyInt 1, PyFloat NaN]"
    and B: "broadcast_flat [2] ?b = [PyFloat NaN, PyInt 2]"
    by code_simp+
  have n1: "number_isnan ?env (PyInt 1) = Inr False"
    and n2: "number_isnan ?env (PyFloat NaN) = Inr True"
    by code_simp+
  have ok: "\<forall>i<prod_list [2]. \<exists>v. pick_nan ?env (op_gt ?env) (broadcast_flat [2] ?a ! i) (broadcast_flat [2] ?b ! i) = Inr v"
    unfolding A B by (simp add: eval_nat_numeral All_less_Suc pick_nan_def n1 n2)
  from maximum_minimum_nan_wins [OF wa wb nd bs, of ?env] ok obtain r where
    r: "fst (ua_array_ufunc ?env ?a U_maximum [Array (as_ndarray ?a), Array (as_ndarray ?b)]) = Inr (RUncertainArray r)"
       "shape r = [2]"
       "\<forall>i<prod_list [2].
             (number_isnan ?env (broadcast_flat [2] ?a ! i) = Inr True \<longrightarrow>
                data r ! i = broadcast_flat [2] ?a ! i) \<and>
             (number_isnan ?env (broadcast_flat [2] ?a ! i) = Inr False \<and>
              number_isnan ?env (broadcast_flat [2] ?b ! i) = Inr True \<longrightarrow>
                data r ! i = broadcast_flat [2] ?b ! i) \<and>
             (number_isnan ?env (broadcast_flat [2] ?a ! i) = Inr False \<and>
              number_isnan ?env (broadcast_flat [2] ?b ! i) = Inr False \<longrightarrow>
                pick ?env (op_gt ?env) (broadcast_flat [2] ?a ! i) (broadcast_flat [2] ?b ! i) = Inr (data r ! i))"
    by blast
  from r(3) have "data r ! 0 = PyFloat NaN \<and> data r ! 1 = PyFloat NaN"
    unfolding A B by (simp add: eval_nat_numeral All_less_Suc n1 n2)
  with r(1,2) show ?thesis by blast
qed

text \<open>The claim as the spec states it fails on these inputs: element 0 of the maximum is
  not 1 and element 1 is not 2.\<close>

theorem maximum_nan_wins_counterexample:
  "(case fst (ua_array_ufunc (plain :: (unit, unit) env) (uarray1 [PyInt 1, PyFloat NaN]) U_maximum
          [Array (as_ndarray (uarray1 [PyInt 1, PyFloat NaN])), Array (as_ndarray (uarray1 [PyFloat NaN, PyInt 2]))]) of
      Inr (RUncertainArray r) \<Rightarrow> data r ! 0 \<noteq> PyInt 1 \<and> data r ! 1 \<noteq> PyInt 2
    | _ \<Rightarrow> False)"
  by code_simp

subsection \<open>What the boolean operations return\<close>

text \<open>C4, as the code has it. On an array of positive dimension, whatever the comparisons
  \<open>==\<close>, \<open>!=\<close>, \<open><\<close>, \<open><=\<close>, \<open>>\<close>, \<open>>=\<close>, the tests \<open>isnan\<close>, \<open>isinf\<close>, \<open>isfinite\<close> and
  \<open>logical_not\<close> return is a plain boolean ndarray, which holds truth values only and is
  not an UncertainArray. Whatever \<open>logical_and\<close> and \<open>logical_or\<close> return is an
  UncertainArray of objects, and \<open>logical_xor\<close> returns nothing. Applied to two
  UncertainArrays whose shapes broadcast to \<open>s\<close>, where every broadcast element of the
  first has a truth value, \<open>logical_and\<close> and \<open>logical_or\<close> do return such an array, of
  shape \<open>s\<close>, and each of its elements is one of the two operands: for \<open>logical_and\<close> the
  second where the first is true and the first where it is false (Python's \<^verbatim>\<open>a and b\<close>),
  for \<open>logical_or\<close> the first where it is true and the second where it is false
  (\<^verbatim>\<open>a or b\<close>).\<close>

theorem boolean_operations_result:
  fixes self :: "'u pyobj uarray" and env :: "('u, 's) env"
  assumes "shape self \<noteq> []"
  shows "(uf \<in> {U_equal, U_not_equal, U_less, U_less_equal, U_greater, U_greater_equal,
               U_isnan, U_isinf, U_isfinite, U_logical_not}
            \<and> fst (ua_array_ufunc env self uf inputs) = Inr r \<longrightarrow> (\<exists>b. r = RNdarrayBool b)) \<and>
         (uf \<in> {U_logical_and, U_logical_or} \<and> fst (ua_array_ufunc env self uf inputs) = Inr r
            \<longrightarrow> (\<exists>u. r = RUncertainArray u \<and> dtype u = DObject)) \<and>
         (uf = U_logical_xor \<longrightarrow> fst (ua_array_ufunc env self uf inputs) \<noteq> Inr r) \<and>
         (\<forall>(b :: 'u pyobj uarray) s.
            well_formed self \<and> well_formed b \<and> broadcast_shape (shape self) (shape b) = Some s \<and>
            (\<forall>i<prod_list s. \<exists>t. truth env (broadcast_flat s self ! i) = Inr t) \<longrightarrow>
            (\<exists>u. fst (ua_array_ufunc env self U_logical_and [Array (as_ndarray self), Array (as_ndarray b)])
                    = Inr (RUncertainArray u) \<and>
                  shape u = s \<and> dtype u = DObject \<and> length (data u) = prod_list s \<and>
                  (\<forall>i<prod_list s.
                     (truth env (broadcast_flat s self ! i) = Inr True \<longrightarrow> data u ! i = broadcast_flat s b ! i) \<and>
                     (truth env (broadcast_flat s self ! i) = Inr False \<longrightarrow> data u ! i = broadcast_flat s self ! i))) \<and>
            (\<exists>u. fst (ua_array_ufunc env self U_logical_or [Array (as_ndarray self), Array (as_ndarray b)])
                    = Inr (RUncertainArray u) \<and>
                  shape u = s \<and> dtype u = DObject \<and> length (data u) = prod_list s \<and>
                  (\<forall>i<prod_list s.
                     (truth env (broadcast_flat s self ! i) = Inr True \<longrightarrow> data u ! i = broadcast_flat s self ! i) \<and>
                     (truth env (broadcast_flat s self ! i) = Inr False \<longrightarrow> data u ! i = broadcast_flat s b ! i))))"
proof (intro conjI impI allI)
  assume a: "uf \<in> {U_equal, U_not_equal, U_less, U_less_equal, U_greater, U_greater_equal,
               U_isnan, U_isinf, U_isfinite, U_logical_not}
            \<and> fst (ua_array_ufunc env self uf inputs) = Inr r"
  then obtain attr bs hin where h: "handler env uf = Some attr"
    and r: "attr (self\<lparr>broadcasted_shape := bs\<rparr>) hin = Inr r"
    using array_ufunc_returns by blast
  have s: "shape (self\<lparr>broadcasted_shape := bs\<rparr>) \<noteq> []" using assms by simp
  from a have "uf \<in> {U_equal, U_not_equal, U_less, U_less_equal, U_greater, U_greater_equal,
               U_isnan, U_isinf, U_isfinite, U_logical_not}" by blast
  from handler_boolean [OF this h s r] show "\<exists>b. r = RNdarrayBool b" .
next
  assume a: "uf \<in> {U_logical_and, U_logical_or} \<and> fst (ua_array_ufunc env self uf inputs) = Inr r"
  then obtain attr bs hin where h: "handler env uf = Some attr"
    and r: "attr (self\<lparr>broadcasted_shape := bs\<rparr>) hin = Inr r"
    using array_ufunc_returns by blast
  have s: "shape (self\<lparr>broadcasted_shape := bs\<rparr>) \<noteq> []" using assms by simp
  from a have "uf \<in> {U_logical_and, U_logical_or}" by blast
  from handler_and_or [OF this h s r] show "\<exists>u. r = RUncertainArray u \<and> dtype u = DObject" .
next
  assume "uf = U_logical_xor"
  show "fst (ua_array_ufunc env self uf inputs) \<noteq> Inr r"
  proof
    assume "fst (ua_array_ufunc env self uf inputs) = Inr r"
    from array_ufunc_returns [OF this] \<open>uf = U_logical_xor\<close> show False
      by (auto simp: ua_logical_xor_def)
  qed
next
  fix b :: "'u pyobj uarray" and s
  assume h: "well_formed self \<and> well_formed b \<and> broadcast_shape (shape self) (shape b) = Some s \<and>
            (\<forall>i<prod_list s. \<exists>t. truth env (broadcast_flat s self ! i) = Inr t)"
  then have wa: "well_formed self" and wb: "well_formed b"
    and bs: "broadcast_shape (shape self) (shape b) = Some s"
    and ok: "\<forall>i<prod_list s. \<exists>t. truth env (broadcast_flat s self ! i) = Inr t"
    by blast+
  show "\<exists>u. fst (ua_array_ufunc env self U_logical_and [Array (as_ndarray self), Array (as_ndarray b)])
                    = Inr (RUncertainArray u) \<and>
                  shape u = s \<and> dtype u = DObject \<and> length (data u) = prod_list s \<and>
                  (\<forall>i<prod_list s.
                     (truth env (broadcast_flat s self ! i) = Inr True \<longrightarrow> data u ! i = broadcast_flat s b ! i) \<and>
                     (truth env (broadcast_flat s self ! i) = Inr False \<longrightarrow> data u ! i = broadcast_flat s self ! i))"
    using wa wb assms bs ok by (rule and_or_dispatch(1))
  show "\<exists>u. fst (ua_array_ufunc env self U_logical_or [Array (as_ndarray self), Array (as_ndarray b)])
                    = Inr (RUncertainArray u) \<and>
                  shape u = s \<and> dtype u = DObject \<and> length (data u) = prod_list s \<and>
                  (\<forall>i<prod_list s.
                     (truth env (broadcast_flat s self ! i) = Inr True \<longrightarrow> data u ! i = broadcast_flat s self ! i) \<and>
                     (truth env (broadcast_flat s self ! i) = Inr False \<longrightarrow> data u ! i = broadcast_flat s b ! i))"
    using wa wb assms bs ok by (rule and_or_dispatch(2))
qed

text \<open>Runs: \<open>[1, 2, 3] < 2\<close> is the plain boolean ndarray \<open>[True, False, False]\<close>; the
  \<open>logical_and\<close> of \<open>[1, 0, 3]\<close> and \<open>[5, 6, 7]\<close> is an UncertainArray that holds 5, 0, 7.\<close>

theorem boolean_operations_result_witness:
  "fst (ua_array_ufunc (plain :: (unit, unit) env) (uarray1 [PyInt 1, PyInt 2, PyInt 3]) U_less
          [Array (as_ndarray (uarray1 [PyInt 1, PyInt 2, PyInt 3])), Scalar (PyInt 2)])
     = Inr (RNdarrayBool \<lparr>shape = [3], dtype = DBool, data = [True, False, False]\<rparr>) \<and>
   (\<exists>b. (RNdarrayBool \<lparr>shape = [3], dtype = DBool, data = [True, False, False]\<rparr> :: unit pyresult)
           = RNdarrayBool b) \<and>
   (\<exists>u. fst (ua_array_ufunc (plain :: (unit, unit) env) (uarray1 [PyInt 1, PyInt 0, PyInt 3]) U_logical_and
            [Array (as_ndarray (uarray1 [PyInt 1, PyInt 0, PyInt 3])),
             Array (as_ndarray (uarray1 [PyInt 5, PyInt 6, PyInt 7]))])
          = Inr (RUncertainArray u) \<and> shape u = [3] \<and> dtype u = DObject \<and>
        data u ! 0 = PyInt 5 \<and> data u ! 1 = PyInt 0 \<and> data u ! 2 = PyInt 7)"
proof -
  let ?a = "uarray1 [PyInt 1, PyInt 2, PyInt 3] :: unit pyobj uarray"
  let ?inputs = "[Array (as_ndarray ?a), Scalar (PyInt 2)] :: (unit, unit) operand list"
  let ?r = "RNdarrayBool \<lparr>shape = [3], dtype = DBool, data = [True, False, False]\<rparr> :: unit pyresult"
  let ?env = "plain :: (unit, unit) env"
  have e: "fst (ua_array_ufunc ?env ?a U_less ?inputs) = Inr ?r"
    by code_simp
  have nd: "shape ?a \<noteq> []"
    by (simp add: uarray1_def UncertainArray_def view_UncertainArray_def)
  have m: "U_less \<in> {U_equal, U_not_equal, U_less, U_less_equal, U_greater, U_greater_equal,
               U_isnan, U_isinf, U_isfinite, U_logical_not}"
    by simp
  from boolean_operations_result [OF nd, where uf = U_less and env = ?env and inputs = ?inputs and r = ?r] m e
  have 1: "\<exists>b. ?r = RNdarrayBool b" by blast
  let ?p = "uarray1 [PyInt 1, PyInt 0, PyInt 3] :: unit pyobj uarray"
  let ?q = "uarray1 [PyInt 5, PyInt 6, PyInt 7] :: unit pyobj uarray"
  have wp: "well_formed ?p" and wq: "well_formed ?q" and ndp: "shape ?p \<noteq> []"
    by (simp_all add: well_formed_def uarray1_def UncertainArray_def view_UncertainArray_def)
  have bs: "broadcast_shape (shape ?p) (shape ?q) = Some [3]"
    by code_simp
  have P: "broadcast_flat [3] ?p = [PyInt 1, PyInt 0, PyInt 3]"
    and Q: "broadcast_flat [3] ?q = [PyInt 5, PyInt 6, PyInt 7]"
    by code_simp+
  have t: "truth ?env (PyInt 1) = Inr True" "truth ?env (PyInt 0) = Inr False" "truth ?env (PyInt 3) = Inr True"
    by code_simp+
  have ok: "\<forall>i<prod_list [3]. \<exists>t. truth ?env (broadcast_flat [3] ?p ! i) = Inr t"
    unfolding P by (auto simp: eval_nat_numeral All_less_Suc t)
  from boolean_operations_result [OF ndp, where env = ?env and uf = U_less and inputs = "[]" and r = ?r]
    wp wq bs ok
  obtain u where
    u: "fst (ua_array_ufunc ?env ?p U_logical_and [Array (as_ndarray ?p), Array (as_ndarray ?q)])
          = Inr (RUncertainArray u)" "shape u = [3]" "dtype u = DObject"
       "\<forall>i<prod_list [3].
           (truth ?env (broadcast_flat [3] ?p ! i) = Inr True \<longrightarrow> data u ! i = broadcast_flat [3] ?q ! i) \<and>
           (truth ?env (broadcast_flat [3] ?p ! i) = Inr False \<longrightarrow> data u ! i = broadcast_flat [3] ?p ! i)"
    by blast
  from u(4) have "data u ! 0 = PyInt 5 \<and> data u ! 1 = PyInt 0 \<and> data u ! 2 = PyInt 7"
    unfolding P Q by (simp add: eval_nat_numeral All_less_Suc t)
  with u(1-3) have 2: "\<exists>u. fst (ua_array_ufunc ?env ?p U_logical_and [Array (as_ndarray ?p), Array (as_ndarray ?q)])
          = Inr (RUncertainArray u) \<and> shape u = [3] \<and> dtype u = DObject \<and>
        data u ! 0 = PyInt 5 \<and> data u ! 1 = PyInt 0 \<and> data u ! 2 = PyInt 7"
    by blast
  from e 1 2 show ?thesis by blast
qed

text \<open>The claim as the spec states it fails for \<open>logical_and\<close>: on two arrays of one
  uncertain number each (taken to be true), the result is an UncertainArray, and it
  holds the uncertain number.\<close>

theorem logical_and_returns_uarray_counterexample:
  "fst (ua_array_ufunc ((plain :: (unit, unit) env)\<lparr>truth := (\<lambda>x. Inr True)\<rparr>) (uarray1 [Uncertain ()]) U_logical_and
          [Array (as_ndarray (uarray1 [Uncertain ()])), Array (as_ndarray (uarray1 [Uncertain ()]))])
     = Inr (RUncertainArray (uarray1 [Uncertain ()]))"
  by code_simp

subsection \<open>The scratch attribute outlives the call\<close>

text \<open>C5 fails on the code. Adding the array \<open>[1, 2, 3]\<close> to an array of shape \<open>[2, 3]\<close>
  leaves \<open>[2, 3]\<close> in its attribute \<^verbatim>\<open>_broadcasted_shape\<close>. A call with one input does not
  reset the attribute, and \<^verbatim>\<open>_create_empty\<close> reads it: negating the array before the
  addition gives \<open>[-1, -2, -3]\<close> of shape \<open>[3]\<close>, negating it after the addition gives an
  array of shape \<open>[2, 3]\<close> whose last three cells are \<^verbatim>\<open>None\<close>.\<close>

theorem negative_after_broadcast_add:
  "snd (ua_array_ufunc (plain :: (unit, unit) env) (uarray1 [PyInt 1, PyInt 2, PyInt 3]) U_add
          [Array (as_ndarray (uarray1 [PyInt 1, PyInt 2, PyInt 3])),
           Array \<lparr>shape = [2, 3], dtype = DObject, data = [PyInt 1, PyInt 2, PyInt 3, PyInt 4, PyInt 5, PyInt 6]\<rparr>])
     = (uarray1 [PyInt 1, PyInt 2, PyInt 3])\<lparr>broadcasted_shape := Some [2, 3]\<rparr> \<and>
   fst (ua_array_ufunc (plain :: (unit, unit) env) (uarray1 [PyInt 1, PyInt 2, PyInt 3]) U_negative
          [Array (as_ndarray (uarray1 [PyInt 1, PyInt 2, PyInt 3]))])
     = Inr (RUncertainArray (uarray1 [PyInt (- 1), PyInt (- 2), PyInt (- 3)])) \<and>
   fst (ua_array_ufunc (plain :: (unit, unit) env)
          ((uarray1 [PyInt 1, PyInt 2, PyInt 3])\<lparr>broadcasted_shape := Some [2, 3]\<rparr>) U_negative
          [Array (as_ndarray (uarray1 [PyInt 1, PyInt 2, PyInt 3]))])
     = Inr (RUncertainArray (UncertainArray
          \<lparr>shape = [2, 3], dtype = DObject,
           data = [PyInt (- 1), PyInt (- 2), PyInt (- 3), PyNone, PyNone, PyNone]\<rparr> None))"
  by code_simp

subsection \<open>Unsupported reductions\<close>

text \<open>C6. Whatever the array and whatever the positional and keyword arguments, \<open>std\<close>
  and \<open>var\<close> raise TypeError; neither returns a result.\<close>

theorem std_var_raise_TypeError:
  "ua_std self args kwargs = Inl TypeError \<and> ua_var self args kwargs = Inl TypeError
   \<and> (\<forall>r. ua_std self args kwargs \<noteq> Inr r) \<and> (\<forall>r. ua_var self args kwargs \<noteq> Inr r)"
  by (simp add: ua_std_def ua_var_def)

subsection \<open>Sum and mean\<close>

text \<open>C7, as the code has it. On the 1-dimensional array of the three numbers 1, 2, 3
  the reduction \<open>sum\<close> yields 6 and the reduction \<open>mean\<close> yields 2, each as a bare
  scalar, not wrapped in an array.\<close>

theorem sum_6_mean_2:
  "ua_sum (ndarray_sum (plain :: (unit, unit) env)) (uarray1 [PyInt 1, PyInt 2, PyInt 3]) ()
     = Inr (RScalar (PyInt 6)) \<and>
   ua_mean (ndarray_mean (plain :: (unit, unit) env)) (uarray1 [PyInt 1, PyInt 2, PyInt 3]) ()
     = Inr (RScalar (PyFloat (Finite 2)))"
  by code_simp

text \<open>The values the spec gives are exchanged: \<open>sum\<close> does not yield 2 and \<open>mean\<close> does
  not yield 6, as an integer or as a float.\<close>

theorem sum_2_mean_6_counterexample:
  "ua_sum (ndarray_sum (plain :: (unit, unit) env)) (uarray1 [PyInt 1, PyInt 2, PyInt 3]) ()
     \<noteq> Inr (RScalar (PyInt 2)) \<and>
   ua_sum (ndarray_sum (plain :: (unit, unit) env)) (uarray1 [PyInt 1, PyInt 2, PyInt 3]) ()
     \<noteq> Inr (RScalar (PyFloat (Finite 2))) \<and>
   ua_mean (ndarray_mean (plain :: (unit, unit) env)) (uarray1 [PyInt 1, PyInt 2, PyInt 3]) ()
     \<noteq> Inr (RScalar (PyInt 6)) \<and>
   ua_mean (ndarray_mean (plain :: (unit, unit) env)) (uarray1 [PyInt 1, PyInt 2, PyInt 3]) ()
     \<noteq> Inr (RScalar (PyFloat (Finite 6)))"
  by code_simp

subsection \<open>The element kind of a new array\<close>

text \<open>C8, as the code has it. When the input is exactly an ndarray, the new array has the
  input's own element kind, whatever hint is given. When the input is anything else, the
  element kind is object without a hint, and the hint when one is given.\<close>

theorem new_element_kind:
  "ua_new env (PlainNdarray a) hint lbl = Inr (UncertainArray a lbl) \<and>
   dtype (UncertainArray a lbl) = dtype a \<and>
   (\<forall>s u. ua_new env (Other s) None lbl = Inr u \<longrightarrow> dtype u = DObject) \<and>
   (\<forall>s d u. ua_new env (Other s) (Some d) lbl = Inr u \<longrightarrow> dtype u = d)"
proof (intro conjI allI impI)
  show "ua_new env (PlainNdarray a) hint lbl = Inr (UncertainArray a lbl)"
    by (rule ua_new_PlainNdarray)
  show "dtype (UncertainArray a lbl) = dtype a"
    by (simp add: UncertainArray_def view_UncertainArray_def)
next
  fix s u
  assume "ua_new env (Other s) None lbl = Inr u"
  then obtain obj where "np_asarray env (Other s) DObject = Inr obj"
    and "u = (view_UncertainArray obj)\<lparr>label := lbl\<rparr>"
    by (cases "np_asarray env (Other s) DObject") (auto simp: ua_new_def)
  then show "dtype u = DObject"
    using np_asarray_dtype by (fastforce simp: view_UncertainArray_def)
next
  fix s d u
  assume "ua_new env (Other s) (Some d) lbl = Inr u"
  then obtain obj where "np_asarray env (Other s) d = Inr obj"
    and "u = (view_UncertainArray obj)\<lparr>label := lbl\<rparr>"
    by (cases "np_asarray env (Other s) d") (auto simp: ua_new_def)
  then show "dtype u = d"
    using np_asarray_dtype by (fastforce simp: view_UncertainArray_def)
qed

text \<open>A run in which numpy converts a sequence to the two cells 1 and 2: without a hint
  the new array holds objects, with the hint \<open>DInt\<close> it has that kind.\<close>

theorem new_element_kind_witness:
  "ua_new ((plain :: (unit, unit) env)\<lparr>np_convert := (\<lambda>x d. Inr ([2], [PyInt 1, PyInt 2]))\<rparr>) (Other ()) None None
     = Inr (uarray1 [PyInt 1, PyInt 2])
   \<and> dtype (uarray1 [PyInt 1, PyInt 2] :: unit pyobj uarray) = DObject
   \<and> ua_new ((plain :: (unit, unit) env)\<lparr>np_convert := (\<lambda>x d. Inr ([2], [PyInt 1, PyInt 2]))\<rparr>) (Other ()) (Some DInt) None
     = Inr (UncertainArray \<lparr>shape = [2], dtype = DInt, data = [PyInt 1, PyInt 2]\<rparr> None)
   \<and> dtype (UncertainArray \<lparr>shape = [2], dtype = DInt, data = [PyInt 1, PyInt 2 :: unit pyobj]\<rparr> None) = DInt"
proof -
  let ?E = "(plain :: (unit, unit) env)\<lparr>np_convert := (\<lambda>x d. Inr ([2], [PyInt 1, PyInt 2]))\<rparr>"
  have 1: "ua_new ?E (Other ()) None None = Inr (uarray1 [PyInt 1, PyInt 2])"
    by (simp add: ua_new_def np_asarray_def uarray1_def UncertainArray_def view_UncertainArray_def)
  have 2: "ua_new ?E (Other ()) (Some DInt) None
     = Inr (UncertainArray \<lparr>shape = [2], dtype = DInt, data = [PyInt 1, PyInt 2]\<rparr> None)"
    by (simp add: ua_new_def np_asarray_def uarray1_def UncertainArray_def view_UncertainArray_def)
  from new_element_kind [of ?E undefined None None] 1 2 show ?thesis
    by blast
qed

text \<open>The claim as the spec states it fails for an ndarray of floats given with the hint
  \<open>DInt\<close>: the new array holds floats.\<close>

theorem new_ignores_hint_counterexample:
  "ua_new (plain :: (unit, unit) env)
      (PlainNdarray \<lparr>shape = [1], dtype = DFloat, data = [PyFloat (Finite 1)]\<rparr>) (Some DInt) None
     = Inr (UncertainArray \<lparr>shape = [1], dtype = DFloat, data = [PyFloat (Finite 1)]\<rparr> None)
   \<and> dtype (UncertainArray \<lparr>shape = [1], dtype = DFloat, data = [PyFloat (Finite 1) :: unit pyobj]\<rparr> None) \<noteq> DInt"
  by (simp add: ua_new_def np_asarray_def UncertainArray_def view_UncertainArray_def)

subsection \<open>Labels of intermediate results\<close>

text \<open>On an UncertainArray of 3 elements \<open>e0\<close>, \<open>e1\<close>, \<open>e2\<close> (in flat order, whatever its
  shape) whose scratch attribute is unset, as on every array just built, registering
  with the one shared label \<open>x\<close> calls \<^verbatim>\<open>result\<close> on \<open>e0\<close> with \<open>x[0]\<close>, then on \<open>e1\<close> with
  \<open>x[1]\<close>, then on \<open>e2\<close> with \<open>x[2]\<close>, and returns the array of the three results.\<close>

lemma intermediate_shared_label:
  assumes "data self = [e0, e1, e2]" and "prod_list (shape self) = 3" and "broadcasted_shape self = None"
  shows "ua_intermediate env self (Some (Shared ''x'')) =
     and_then (core_result env e0 (Some (PyStr ''x[0]''))) (\<lambda>v0.
     and_then (core_result env e1 (Some (PyStr ''x[1]''))) (\<lambda>v1.
     and_then (core_result env e2 (Some (PyStr ''x[2]''))) (\<lambda>v2.
     Inr (RUncertainArray \<lparr>shape = shape self, dtype = DObject, data = [v0, v1, v2],
            label = None, broadcasted_shape = None\<rparr>))))"
proof -
  have ne: "shape self \<noteq> []" using assms(2) by auto
  have three: "[0..<3] = [0, 1, 2::nat]" by (simp add: upt_rec)
  have labels: "asarray_labels (indexed_labels (Shared ''x'') 3)
      = (\<lparr>shape = [3], dtype = DStr, data = [PyStr ''x[0]'', PyStr ''x[1]'', PyStr ''x[2]'']\<rparr> :: 'a pyobj ndarray)"
    by (simp add: asarray_labels_def indexed_labels_def label_text_def three)
  have buf: "np_empty (shape self) DObject (\<lambda>i. PyNone :: 'a pyobj)
      = \<lparr>shape = shape self, dtype = DObject, data = [PyNone, PyNone, PyNone]\<rparr>"
    by (simp add: np_empty_def assms(2) three)
  have ce: "ua_create_empty self (Some (Arrays [as_ndarray self, asarray_labels (indexed_labels (Shared ''x'') 3)]))
              None (\<lambda>i. PyNone :: 'a pyobj)
      = Inr (\<lparr>shape = shape self, dtype = DObject, data = [PyNone, PyNone, PyNone]\<rparr>,
             [Tuple [e0, PyStr ''x[0]''], Tuple [e1, PyStr ''x[1]''], Tuple [e2, PyStr ''x[2]'']])"
    by (simp add: ua_create_empty_def assms buf labels)
  show ?thesis
    unfolding ua_intermediate_def
    apply (simp add: ua_size_def assms(2) is_sequence_def ne ce Let_def on_pair_def itemset_def
        UncertainArray_def view_UncertainArray_def)
    apply (cases "core_result env e0 (Some (PyStr ''x[0]''))"; simp)
    apply (cases "core_result env e1 (Some (PyStr ''x[1]''))"; simp)
    apply (cases "core_result env e2 (Some (PyStr ''x[2]''))"; simp)
    done
qed

text \<open>C9 fails on the code, by the defect shown for C5. Adding the array
  \<open>[10, 20, 30]\<close> to an array of shape \<open>[0, 3]\<close> leaves \<open>[0, 3]\<close> in its attribute
  \<^verbatim>\<open>_broadcasted_shape\<close>, and \<^verbatim>\<open>_create_empty\<close> then allocates a buffer without cells:
  registering with the shared label \<open>x\<close> calls \<^verbatim>\<open>result\<close> on the first element with
  \<open>x[0]\<close> (an exception of that call is the one that comes out) and then raises
  IndexError when it stores the result; the second and third element are never
  registered. On the array as it was built, the three elements are registered with
  \<open>x[0]\<close>, \<open>x[1]\<close>, \<open>x[2]\<close>.\<close>

theorem intermediate_after_broadcast_raises:
  "snd (ua_array_ufunc (plain :: (unit, unit) env) (uarray1 [PyInt 10, PyInt 20, PyInt 30]) U_add
          [Array (as_ndarray (uarray1 [PyInt 10, PyInt 20, PyInt 30])),
           Array \<lparr>shape = [0, 3], dtype = DObject, data = []\<rparr>])
     = (uarray1 [PyInt 10, PyInt 20, PyInt 30])\<lparr>broadcasted_shape := Some [0, 3]\<rparr> \<and>
   ua_intermediate
      ((plain :: (unit, unit) env)\<lparr>core_result := (\<lambda>x lbl. Inr (case lbl of None \<Rightarrow> x | Some l \<Rightarrow> l))\<rparr>)
      ((uarray1 [PyInt 10, PyInt 20, PyInt 30])\<lparr>broadcasted_shape := Some [0, 3]\<rparr>) (Some (Shared ''x''))
     = Inl IndexError \<and>
   ua_intermediate
      ((plain :: (unit, unit) env)\<lparr>core_result := (\<lambda>x lbl. if lbl = Some (PyStr ''x[0]'') then Inl Unmodelled else Inr x)\<rparr>)
      ((uarray1 [PyInt 10, PyInt 20, PyInt 30])\<lparr>broadcasted_shape := Some [0, 3]\<rparr>) (Some (Shared ''x''))
     = Inl Unmodelled \<and>
   ua_intermediate
      ((plain :: (unit, unit) env)\<lparr>core_result := (\<lambda>x lbl. Inr (case lbl of None \<Rightarrow> x | Some l \<Rightarrow> l))\<rparr>)
      (uarray1 [PyInt 10, PyInt 20, PyInt 30]) (Some (Shared ''x''))
     = Inr (RUncertainArray (uarray1 [PyStr ''x[0]'', PyStr ''x[1]'', PyStr ''x[2]'']))"
  by code_simp

subsection \<open>The exclusive or\<close>

text \<open>C10, as the code has it. Dispatching \<open>logical_xor\<close> never returns a result, whatever
  the array and the inputs. With one input it raises TypeError. With two inputs the one
  that is not an ndarray is converted first, then the shapes are compared: the exception
  is TypeError when the shapes are equal or can be broadcast, so for two such arrays and
  for an array with a number, and ValueError when they cannot be broadcast. A sequence
  is converted by numpy like any other: the exception is that of the conversion if it
  fails, and follows the shapes otherwise. Two inputs of which none is an ndarray after
  the conversion raise AttributeError, and any other number of inputs fails the
  assertion.\<close>

theorem logical_xor_dispatch_raises:
  "(\<forall>r. fst (ua_array_ufunc env self U_logical_xor inputs) \<noteq> Inr r) \<and>
   (length inputs = 1 \<longrightarrow> fst (ua_array_ufunc env self U_logical_xor inputs) = Inl TypeError) \<and>
   (\<forall>a b. inputs = [Array a, Array b] \<and> broadcast_shape (shape a) (shape b) \<noteq> None
      \<longrightarrow> fst (ua_array_ufunc env self U_logical_xor inputs) = Inl TypeError) \<and>
   (\<forall>a b. inputs = [Array a, Array b] \<and> broadcast_shape (shape a) (shape b) = None
      \<longrightarrow> fst (ua_array_ufunc env self U_logical_xor inputs) = Inl ValueError) \<and>
   (\<forall>a x. inputs = [Array a, Scalar x] \<or> inputs = [Scalar x, Array a]
      \<longrightarrow> fst (ua_array_ufunc env self U_logical_xor inputs) = Inl TypeError) \<and>
   (\<forall>a s. inputs = [Array a, Foreign s]
      \<longrightarrow> fst (ua_array_ufunc env self U_logical_xor inputs) =
            (case np_asarray env (Other s) DObject of
               Inl e \<Rightarrow> Inl e
             | Inr c \<Rightarrow> (if broadcast_shape (shape a) (shape c) = None then Inl ValueError else Inl TypeError))) \<and>
   (\<forall>a s. inputs = [Foreign s, Array a]
      \<longrightarrow> fst (ua_array_ufunc env self U_logical_xor inputs) =
            (case np_asarray env (Other s) DObject of
               Inl e \<Rightarrow> Inl e
             | Inr c \<Rightarrow> (if broadcast_shape (shape c) (shape a) = None then Inl ValueError else Inl TypeError))) \<and>
   (length inputs = 2 \<longrightarrow>
      fst (ua_array_ufunc env self U_logical_xor inputs) =
        (case coerce env inputs of
           Inl e \<Rightarrow> Inl e
         | Inr ins \<Rightarrow>
             (case (ins ! 0, ins ! 1) of
                (Array a, Array b) \<Rightarrow>
                  (if broadcast_shape (shape a) (shape b) = None then Inl ValueError else Inl TypeError)
              | _ \<Rightarrow> Inl AttributeError))) \<and>
   (length inputs \<noteq> 1 \<and> length inputs \<noteq> 2
      \<longrightarrow> fst (ua_array_ufunc env self U_logical_xor inputs) = Inl AssertionError)"
proof (intro conjI allI impI)
  fix r
  show "fst (ua_array_ufunc env self U_logical_xor inputs) \<noteq> Inr r"
  proof
    assume "fst (ua_array_ufunc env self U_logical_xor inputs) = Inr r"
    from array_ufunc_returns [OF this] show False
      by (auto simp: ua_logical_xor_def)
  qed
next
  assume "length inputs = 1"
  then show "fst (ua_array_ufunc env self U_logical_xor inputs) = Inl TypeError"
    by (simp add: ua_array_ufunc_def ua_logical_xor_def)
next
  fix a b
  assume "inputs = [Array a, Array b] \<and> broadcast_shape (shape a) (shape b) \<noteq> None"
  then show "fst (ua_array_ufunc env self U_logical_xor inputs) = Inl TypeError"
    by (auto simp: logical_xor_two coerce_cases)
next
  fix a b
  assume "inputs = [Array a, Array b] \<and> broadcast_shape (shape a) (shape b) = None"
  then show "fst (ua_array_ufunc env self U_logical_xor inputs) = Inl ValueError"
    by (auto simp: logical_xor_two coerce_cases)
next
  fix a x
  assume "inputs = [Array a, Scalar x] \<or> inputs = [Scalar x, Array a]"
  then show "fst (ua_array_ufunc env self U_logical_xor inputs) = Inl TypeError"
    by (auto simp: logical_xor_two coerce_cases np_full_def broadcast_shape_same)
next
  fix a s
  assume "inputs = [Array a, Foreign s]"
  then show "fst (ua_array_ufunc env self U_logical_xor inputs) =
            (case np_asarray env (Other s) DObject of
               Inl e \<Rightarrow> Inl e
             | Inr c \<Rightarrow> (if broadcast_shape (shape a) (shape c) = None then Inl ValueError else Inl TypeError))"
    by (cases "np_asarray env (Other s) DObject") (simp_all add: logical_xor_two coerce_cases)
next
  fix a s
  assume "inputs = [Foreign s, Array a]"
  then show "fst (ua_array_ufunc env self U_logical_xor inputs) =
            (case np_asarray env (Other s) DObject of
               Inl e \<Rightarrow> Inl e
             | Inr c \<Rightarrow> (if broadcast_shape (shape c) (shape a) = None then Inl ValueError else Inl TypeError))"
    by (cases "np_asarray env (Other s) DObject") (simp_all add: logical_xor_two coerce_cases)
next
  assume "length inputs = 2"
  then show "fst (ua_array_ufunc env self U_logical_xor inputs) =
        (case coerce env inputs of
           Inl e \<Rightarrow> Inl e
         | Inr ins \<Rightarrow>
             (case (ins ! 0, ins ! 1) of
                (Array a, Array b) \<Rightarrow>
                  (if broadcast_shape (shape a) (shape b) = None then Inl ValueError else Inl TypeError)
              | _ \<Rightarrow> Inl AttributeError))"
    by (rule logical_xor_two)
next
  assume "length inputs \<noteq> 1 \<and> length inputs \<noteq> 2"
  then show "fst (ua_array_ufunc env self U_logical_xor inputs) = Inl AssertionError"
    by (simp add: ua_array_ufunc_def)
qed

text \<open>Runs: shapes \<open>[3]\<close> and \<open>[1]\<close>, which can be broadcast; an array and the number
  \<^verbatim>\<open>True\<close>; shapes \<open>[3]\<close> and \<open>[2]\<close>, which cannot.\<close>

theorem logical_xor_dispatch_raises_witness:
  "fst (ua_array_ufunc (plain :: (unit, unit) env) (uarray1 [PyInt 1, PyInt 2, PyInt 3]) U_logical_xor
     [Array (as_ndarray (uarray1 [PyInt 1, PyInt 2, PyInt 3])), Array (as_ndarray (uarray1 [PyInt 1]))])
     = Inl TypeError \<and>
   fst (ua_array_ufunc (plain :: (unit, unit) env) (uarray1 [PyInt 1, PyInt 2, PyInt 3]) U_logical_xor
     [Array (as_ndarray (uarray1 [PyInt 1, PyInt 2, PyInt 3])), Scalar (PyBool True)])
     = Inl TypeError \<and>
   fst (ua_array_ufunc (plain :: (unit, unit) env) (uarray1 [PyInt 1, PyInt 2, PyInt 3]) U_logical_xor
     [Array (as_ndarray (uarray1 [PyInt 1, PyInt 2, PyInt 3])), Array (as_ndarray (uarray1 [PyInt 1, PyInt 2]))])
     = Inl ValueError"
proof -
  let ?a = "as_ndarray (uarray1 [PyInt 1, PyInt 2, PyInt 3 :: unit pyobj])"
  let ?b = "as_ndarray (uarray1 [PyInt 1 :: unit pyobj])"
  let ?c = "as_ndarray (uarray1 [PyInt 1, PyInt 2 :: unit pyobj])"
  let ?self = "uarray1 [PyInt 1, PyInt 2, PyInt 3] :: unit pyobj uarray"
  let ?env = "plain :: (unit, unit) env"
  have b: "broadcast_shape (shape ?a) (shape ?b) \<noteq> None"
    and c: "broadcast_shape (shape ?a) (shape ?c) = None"
    by code_simp+
  from b logical_xor_dispatch_raises [of ?env ?self "[Array ?a, Array ?b]"]
  have 1: "fst (ua_array_ufunc ?env ?self U_logical_xor [Array ?a, Array ?b]) = Inl TypeError"
    by blast
  from logical_xor_dispatch_raises [of ?env ?self "[Array ?a, Scalar (PyBool True)]"]
  have 2: "fst (ua_array_ufunc ?env ?self U_logical_xor [Array ?a, Scalar (PyBool True)]) = Inl TypeError"
    by blast
  from c logical_xor_dispatch_raises [of ?env ?self "[Array ?a, Array ?c]"]
  have 3: "fst (ua_array_ufunc ?env ?self U_logical_xor [Array ?a, Array ?c]) = Inl ValueError"
    by blast
  from 1 2 3 show ?thesis by blast
qed

text \<open>The claim as the spec states it fails for arrays of the shapes \<open>[3]\<close> and \<open>[2]\<close>,
  which cannot be broadcast: the exception is the ValueError of the broadcast.\<close>

theorem logical_xor_ValueError_counterexample:
  "fst (ua_array_ufunc (plain :: (unit, unit) env) (uarray1 [PyInt 1, PyInt 2, PyInt 3]) U_logical_xor
     [Array (as_ndarray (uarray1 [PyInt 1, PyInt 2, PyInt 3])), Array (as_ndarray (uarray1 [PyInt 1, PyInt 2]))])
   = Inl ValueError
   \<and> fst (ua_array_ufunc (plain :: (unit, unit) env) (uarray1 [PyInt 1, PyInt 2, PyInt 3]) U_logical_xor
     [Array (as_ndarray (uarray1 [PyInt 1, PyInt 2, PyInt 3])), Array (as_ndarray (uarray1 [PyInt 1, PyInt 2]))])
   \<noteq> Inl TypeError"
  by code_simp

end
